theory Spec2Isabelle
  imports Complex_Main "HOL-Library.Sublist"
begin

section \<open>JavaScript values\<close>

text \<open>
  JavaScript numbers are IEEE 754 doubles: a finite one is a rational, and the three
  values that are not finite are kept, since division never throws but yields one of
  them on a zero divisor. The sign of zero is not modelled.
\<close>

datatype number = Fin rat | Infinity | NegInfinity | NaN

text \<open>
  Rounding to the nearest double, ties to the even significand, as every arithmetic
  operation of the language rounds its exact result. \<open>binade n x\<close> is the exponent
  \<open>e\<close> with \<open>2^e \<le> x < 2^(e+1)\<close> for a positive \<open>x\<close>, found by halving or doubling at
  most \<open>n\<close> times; 1100 steps reach past both ends of the range of doubles, whose
  exponents go from -1022 (shared by the subnormal numbers) to 1023. The significand
  has 53 bits, so the spacing of the doubles at exponent \<open>e\<close> is \<open>2^(e-52)\<close>. A result
  that rounds to \<open>2^1024\<close> or beyond is infinite.
\<close>

definition pow2 :: "int \<Rightarrow> rat" where
  "pow2 e = (if e \<ge> 0 then 2 ^ nat e else 1 / 2 ^ nat (- e))"

fun binade :: "nat \<Rightarrow> rat \<Rightarrow> int" where
  "binade 0 x = 0"
| "binade (Suc n) x =
     (if x \<ge> 2 then binade n (x / 2) + 1
      else if x < 1 then binade n (x * 2) - 1
      else 0)"

definition round_half_even :: "rat \<Rightarrow> int" where
  "round_half_even x =
     (let f = \<lfloor>x\<rfloor>; d = x - of_int f
      in if d < 1 / 2 then f
         else if d > 1 / 2 then f + 1
         else if even f then f else f + 1)"

definition round_to_double :: "rat \<Rightarrow> number" where
  "round_to_double x =
     (if x = 0 then Fin 0
      else
        (let a = \<bar>x\<bar>;
             b = binade 1100 a;
             e = max b (- 1022);
             m = round_half_even (a / pow2 (e - 52))
         in if b > 1023 \<or> (b = 1023 \<and> m \<ge> 2 ^ 53)
            then (if x > 0 then Infinity else NegInfinity)
            else Fin ((if x > 0 then 1 else - 1) * of_int m * pow2 (e - 52))))"

text \<open>The operators \<^verbatim>\<open>/\<close> and \<^verbatim>\<open>*\<close> on numbers.\<close>

fun js_div :: "number \<Rightarrow> number \<Rightarrow> number" where
  "js_div (Fin a) (Fin b) =
     (if b \<noteq> 0 then round_to_double (a / b)
      else if a = 0 then NaN else if a > 0 then Infinity else NegInfinity)"
| "js_div (Fin a) Infinity = Fin 0"
| "js_div (Fin a) NegInfinity = Fin 0"
| "js_div Infinity (Fin b) = (if b \<ge> 0 then Infinity else NegInfinity)"
| "js_div NegInfinity (Fin b) = (if b \<ge> 0 then NegInfinity else Infinity)"
| "js_div a b = NaN"

fun js_mul :: "number \<Rightarrow> number \<Rightarrow> number" where
  "js_mul (Fin a) (Fin b) = round_to_double (a * b)"
| "js_mul NaN b = NaN"
| "js_mul a NaN = NaN"
| "js_mul (Fin a) Infinity = (if a = 0 then NaN else if a > 0 then Infinity else NegInfinity)"
| "js_mul (Fin a) NegInfinity = (if a = 0 then NaN else if a > 0 then NegInfinity else Infinity)"
| "js_mul Infinity (Fin b) = (if b = 0 then NaN else if b > 0 then Infinity else NegInfinity)"
| "js_mul NegInfinity (Fin b) = (if b = 0 then NaN else if b > 0 then NegInfinity else Infinity)"
| "js_mul Infinity Infinity = Infinity"
| "js_mul NegInfinity NegInfinity = Infinity"
| "js_mul Infinity NegInfinity = NegInfinity"
| "js_mul NegInfinity Infinity = NegInfinity"

text \<open>
  The helpers of \<^verbatim>\<open>Utils\<close> accept any JavaScript value and test it with
  \<^verbatim>\<open>typeof\<close> or for truthiness, so values are a datatype. \<open>JObj\<close> stands for
  any object or function, identified by a number.
\<close>

datatype jsval =
    JUndefined
  | JNull
  | JBool bool
  | JNum number
  | JStr string
  | JObj nat

text \<open>The truthiness that \<^verbatim>\<open>!v\<close>, \<^verbatim>\<open>v && w\<close> and \<^verbatim>\<open>if (v)\<close> test.\<close>

fun truthy :: "jsval \<Rightarrow> bool" where
  "truthy JUndefined = False"
| "truthy JNull = False"
| "truthy (JBool b) = b"
| "truthy (JNum n) = (n \<noteq> Fin 0 \<and> n \<noteq> NaN)"
| "truthy (JStr s) = (s \<noteq> [])"
| "truthy (JObj a) = True"

text \<open>
  \<^verbatim>\<open>String.prototype.endsWith\<close>: the search string must fit, and the receiver's
  last characters must be the search string.
\<close>

definition endsWith :: "string \<Rightarrow> string \<Rightarrow> bool" where
  "endsWith s t = (length t \<le> length s \<and> drop (length s - length t) s = t)"

section \<open>Utils.isValidUrl\<close>

text \<open>
  The two properties of a parsed \<^verbatim>\<open>URL\<close> object that the program reads.
  \<open>protocol\<close> is the scheme followed by a colon, as the platform gives it.
\<close>

record url =
  protocol :: string
  hostname :: string

text \<open>
  \<^verbatim>\<open>new URL(string)\<close> belongs to the platform, not to the program: it is a
  parameter of the model, \<open>None\<close> when the constructor throws.
\<close>

type_synonym url_parser = "string \<Rightarrow> url option"

text \<open>
  \<^verbatim>\<open>
  isValidUrl(string, allowedDomains = []) {
      if (typeof string !== 'string') return false;
      try {
          const url = new URL(string);
          const isValidProtocol = url.protocol === 'http:' || url.protocol === 'https:';
          if (allowedDomains.length > 0) {
              const isValidDomain = allowedDomains.some(domain =>
                  url.hostname === domain || url.hostname.endsWith('.' + domain));
              return isValidProtocol && isValidDomain;
          }
          return isValidProtocol;
      } catch (_) { return false; }
  }
  \<close>
\<close>

definition isValidUrl :: "url_parser \<Rightarrow> jsval \<Rightarrow> string list \<Rightarrow> bool" where
  "isValidUrl URL string allowedDomains =
     (case string of
        JStr s \<Rightarrow>
          (case URL s of
             None \<Rightarrow> False
           | Some u \<Rightarrow>
               (let isValidProtocol = (protocol u = ''http:'' \<or> protocol u = ''https:'')
                in if length allowedDomains > 0
                   then (let isValidDomain =
                               list_ex (\<lambda>domain. hostname u = domain
                                          \<or> endsWith (hostname u) (''.'' @ domain))
                                 allowedDomains
                         in isValidProtocol \<and> isValidDomain)
                   else isValidProtocol))
      | _ \<Rightarrow> False)"

text \<open>
  A small parser to run examples with: \<open>scheme://host\<close> followed by nothing or by a
  path, query or fragment. It stands in for the platform's parser on such inputs only
  (no port, user info, case folding or special-scheme repair); every general theorem
  below holds for any parser.
\<close>

definition demoURL :: url_parser where
  "demoURL s =
     (let scheme = takeWhile (\<lambda>c. c \<noteq> CHR '':'') s;
          rest = drop (length scheme) s;
          host = takeWhile (\<lambda>c. c \<noteq> CHR ''/'' \<and> c \<noteq> CHR ''?'' \<and> c \<noteq> CHR ''#'') (drop 3 rest)
      in if scheme = [] \<or> take 3 rest \<noteq> ''://'' \<or> host = [] then None
         else Some \<lparr>protocol = scheme @ '':'', hostname = host\<rparr>)"

section \<open>The page: configuration, platform, document and state\<close>

subsection \<open>CONFIG\<close>

text \<open>
  The values of \<^verbatim>\<open>CONFIG\<close> as the handlers read them, one field per leaf, named by
  its path. \<open>urls\<close> holds the entries of \<^verbatim>\<open>CONFIG.urls\<close>: the configured URL of a
  section name, \<open>None\<close> for a name with no entry. The handlers take the configuration
  as a parameter, so that what is proved of them holds for any configuration;
  \<open>CONFIG\<close> below is the one of the source.
\<close>

record config =
  urls :: "string \<Rightarrow> jsval option"
  security_allowedDomains :: "string list"
  security_maxRedirectDelay :: nat
  selectors_loading :: string
  selectors_scrollIndicator :: string
  selectors_navLinks :: string
  selectors_navCards :: string
  selectors_header :: string
  classes_hidden :: string
  animation_loadingDelay :: nat
  animation_navigationDelay :: nat

text \<open>
  A property read on an object literal falls through to \<^verbatim>\<open>Object.prototype\<close> when the
  object has no entry of that name. The properties of \<^verbatim>\<open>Object.prototype\<close> are
  functions (and the prototype itself for \<^verbatim>\<open>__proto__\<close>): objects, not strings.
\<close>

definition Object_prototype :: "string \<Rightarrow> jsval" where
  "Object_prototype k =
     (if k \<in> set [''constructor'', ''hasOwnProperty'', ''isPrototypeOf'',
                   ''propertyIsEnumerable'', ''toLocaleString'', ''toString'', ''valueOf'',
                   ''__defineGetter__'', ''__defineSetter__'', ''__lookupGetter__'',
                   ''__lookupSetter__'', ''__proto__'']
      then JObj 0 else JUndefined)"

text \<open>The expression \<^verbatim>\<open>CONFIG.urls[name]\<close>.\<close>

definition urls_get :: "config \<Rightarrow> string \<Rightarrow> jsval" where
  "urls_get cfg name = (case urls cfg name of Some v \<Rightarrow> v | None \<Rightarrow> Object_prototype name)"

definition CONFIG :: config where
  "CONFIG =
     \<lparr>urls = [''blog'' \<mapsto> JStr ''https://blog.qulluq.com/''],
      security_allowedDomains = [''qulluq.com'', ''blog.qulluq.com''],
      security_maxRedirectDelay = 1000,
      selectors_loading = ''#loading'',
      selectors_scrollIndicator = ''#scrollIndicator'',
      selectors_navLinks = ''.nav-links a'',
      selectors_navCards = ''.nav-card'',
      selectors_header = ''header'',
      classes_hidden = ''hidden'',
      animation_loadingDelay = 1000,
      animation_navigationDelay = 500\<rparr>"

subsection \<open>Platform and document\<close>

datatype exn = SyntaxError | ReferenceError | TypeError | SecurityError

text \<open>
  What the browser decides: the URL parser; the value of
  \<^verbatim>\<open>process.env.NODE_ENV\<close>, \<open>None\<close> where evaluating it throws a ReferenceError
  (a page with no \<^verbatim>\<open>process\<close> global); and whether assigning a value to
  \<^verbatim>\<open>window.location.href\<close> throws.
\<close>

record platform =
  new_URL :: url_parser
  NODE_ENV :: "jsval option"
  navigation_throws :: "jsval \<Rightarrow> exn option"

type_synonym elem = nat

text \<open>
  The document as the program queries it. \<open>querySelector\<close> and \<open>querySelectorAll\<close>
  throw on a selector that is not valid (\<open>Inl\<close>). \<open>nav_card_link\<close> is
  \<^verbatim>\<open>card.querySelector('.nav-card-link')\<close>, \<open>dataset_section\<close> is
  \<^verbatim>\<open>card.dataset.section\<close> and \<open>getAttribute_href\<close> is
  \<^verbatim>\<open>link.getAttribute('href')\<close>, each \<open>None\<close> for null or undefined. The four
  numbers are \<^verbatim>\<open>document.documentElement.scrollTop\<close>, \<^verbatim>\<open>.scrollHeight\<close>,
  \<^verbatim>\<open>.clientHeight\<close> and \<^verbatim>\<open>window.pageYOffset\<close>; the DOM gives the two heights as
  integers and the two offsets as doubles.
\<close>

record document =
  querySelector :: "string \<Rightarrow> exn + elem option"
  querySelectorAll :: "string \<Rightarrow> exn + elem list"
  nav_card_link :: "elem \<Rightarrow> elem option"
  dataset_section :: "elem \<Rightarrow> string option"
  getAttribute_href :: "elem \<Rightarrow> string option"
  scrollTop :: rat
  scrollHeight :: int
  clientHeight :: int
  pageYOffset :: rat

subsection \<open>State\<close>

datatype level = Warn | Err

text \<open>
  A console message: its literal text, and the values and exceptions interpolated or
  passed along, kept as they are.
\<close>

datatype part = Lit string | Val jsval | Exn exn

datatype target = Window | Element elem

text \<open>
  The listeners the program registers, each named by what it is; a closure carries
  what it captured (the link and the section name).
\<close>

datatype handler =
    HandleWindowLoad
  | HandleScroll
  | HandleError
  | HandleBeforeUnload
  | NavLinkClick elem
  | CardClick elem string
  | CardMouseEnter
  | CardMouseLeave
  | CardLinkClick elem string

text \<open>The delayed navigation of \<open>handleCardClick\<close>: target, link and the link's text.\<close>

datatype callback = Navigate jsval elem string

datatype css_width = Unset | Percent number

text \<open>
  Everything the handlers change: the console, the registered listeners, the pending
  timers (delay and callback, in the order they were set), the targets of every
  intersection observer (in the order the observers were made), the location, the
  calls of \<^verbatim>\<open>window.open\<close> and \<^verbatim>\<open>scrollIntoView\<close>, the style and text of the
  elements, and the two fields of \<^verbatim>\<open>App\<close>: \<open>lastScrollTop\<close> and
  \<open>intersectionObserver\<close> (\<open>None\<close> while undefined).
\<close>

record world =
  console :: "(level \<times> part list) list"
  listeners :: "(target \<times> string \<times> handler) list"
  timers :: "(nat \<times> callback) list"
  observers :: "elem list list"
  location_href :: jsval
  opened :: "(jsval \<times> string) list"
  scrolledIntoView :: "elem list"
  style_opacity :: "elem \<Rightarrow> string"
  style_transform :: "elem \<Rightarrow> string"
  style_width :: "elem \<Rightarrow> css_width"
  textContent :: "elem \<Rightarrow> string"
  lastScrollTop :: "rat option"
  intersectionObserver :: "nat option"

definition console_warn :: "part list \<Rightarrow> world \<Rightarrow> world" where
  "console_warn msg w = w\<lparr>console := console w @ [(Warn, msg)]\<rparr>"

definition console_error :: "part list \<Rightarrow> world \<Rightarrow> world" where
  "console_error msg w = w\<lparr>console := console w @ [(Err, msg)]\<rparr>"

definition setTimeout :: "callback \<Rightarrow> nat \<Rightarrow> world \<Rightarrow> world" where
  "setTimeout cb delay w = w\<lparr>timers := timers w @ [(delay, cb)]\<rparr>"

definition addEventListener :: "target \<Rightarrow> string \<Rightarrow> handler \<Rightarrow> world \<Rightarrow> world" where
  "addEventListener t ev h w = w\<lparr>listeners := listeners w @ [(t, ev, h)]\<rparr>"

subsection \<open>Utils.safeQuerySelector and Utils.safeQuerySelectorAll\<close>

text \<open>
  \<^verbatim>\<open>
  safeQuerySelector(selector) {
      try { return document.querySelector(selector); }
      catch (error) {
          if (process.env.NODE_ENV === 'development') {
              console.error(`Invalid selector: ${selector}`, error);
          } else {
              console.error('Selector error occurred');
          }
          return null;
      }
  }
  \<close>
  The handler of the exception reads \<^verbatim>\<open>process\<close>; where that throws, the function
  throws.
\<close>

definition safeQuerySelector ::
  "platform \<Rightarrow> document \<Rightarrow> string \<Rightarrow> world \<Rightarrow> (exn + elem option) \<times> world" where
  "safeQuerySelector pf doc selector w =
     (case querySelector doc selector of
        Inr r \<Rightarrow> (Inr r, w)
      | Inl error \<Rightarrow>
          (case NODE_ENV pf of
             None \<Rightarrow> (Inl ReferenceError, w)
           | Some mode \<Rightarrow>
               if mode = JStr ''development''
               then (Inr None, console_error [Lit (''Invalid selector: '' @ selector), Exn error] w)
               else (Inr None, console_error [Lit ''Selector error occurred''] w)))"

text \<open>
  \<^verbatim>\<open>
  safeQuerySelectorAll(selector) {
      try { return document.querySelectorAll(selector); }
      catch (error) {
          console.error(`Invalid selector: ${selector}`, error);
          return [];
      }
  }
  \<close>
\<close>

definition safeQuerySelectorAll :: "document \<Rightarrow> string \<Rightarrow> world \<Rightarrow> elem list \<times> world" where
  "safeQuerySelectorAll doc selector w =
     (case querySelectorAll doc selector of
        Inr r \<Rightarrow> (r, w)
      | Inl error \<Rightarrow> ([], console_error [Lit (''Invalid selector: '' @ selector), Exn error] w))"

section \<open>App\<close>

subsection \<open>handleCardClick\<close>

text \<open>
  The label the link shows while the navigation is pending, in UTF-8: three CJK
  characters followed by three full stops.
\<close>

definition loading_label :: string where
  "loading_label =
     [CHR 0xE8, CHR 0xBC, CHR 0x89, CHR 0xE5, CHR 0x85, CHR 0xA5, CHR 0xE4, CHR 0xB8, CHR 0xAD]
     @ ''...''"

text \<open>
  \<^verbatim>\<open>
  handleCardClick(link, section) {
      const targetUrl = CONFIG.urls[section];
      if (!targetUrl) {
          console.warn(`No URL configured for section: ${section}`);
          return;
      }
      if (!Utils.isValidUrl(targetUrl, CONFIG.security.allowedDomains)) {
          console.error(`Invalid or unauthorized URL: ${targetUrl}`);
          return;
      }
      const originalText = link.textContent;
      link.style.opacity = '0.7';
      link.textContent = (the loading label);
      setTimeout(() => { ... },
          Math.min(CONFIG.animation.navigationDelay, CONFIG.security.maxRedirectDelay));
  }
  \<close>
\<close>

definition handleCardClick :: "platform \<Rightarrow> config \<Rightarrow> elem \<Rightarrow> string \<Rightarrow> world \<Rightarrow> world" where
  "handleCardClick pf cfg link section w =
     (let targetUrl = urls_get cfg section
      in if \<not> truthy targetUrl
         then console_warn [Lit ''No URL configured for section: '', Val (JStr section)] w
         else if \<not> isValidUrl (new_URL pf) targetUrl (security_allowedDomains cfg)
         then console_error [Lit ''Invalid or unauthorized URL: '', Val targetUrl] w
         else
           (let originalText = textContent w link;
                w1 = w\<lparr>style_opacity := (style_opacity w)(link := ''0.7'')\<rparr>;
                w2 = w1\<lparr>textContent := (textContent w1)(link := loading_label)\<rparr>
            in setTimeout (Navigate targetUrl link originalText)
                 (min (animation_navigationDelay cfg) (security_maxRedirectDelay cfg)) w2))"

text \<open>
  The callback of the timer, when it runs:
  \<^verbatim>\<open>
  try { window.location.href = targetUrl; }
  catch (error) {
      console.error('Navigation error:', error);
      link.style.opacity = '1';
      link.textContent = originalText;
  }
  \<close>
\<close>

fun run_callback :: "platform \<Rightarrow> callback \<Rightarrow> world \<Rightarrow> world" where
  "run_callback pf (Navigate targetUrl link originalText) w =
     (case navigation_throws pf targetUrl of
        None \<Rightarrow> w\<lparr>location_href := targetUrl\<rparr>
      | Some error \<Rightarrow>
          (let w1 = console_error [Lit ''Navigation error:'', Exn error] w;
               w2 = w1\<lparr>style_opacity := (style_opacity w1)(link := ''1'')\<rparr>
           in w2\<lparr>textContent := (textContent w2)(link := originalText)\<rparr>))"

subsection \<open>Events and the click handler of the navigation links\<close>

text \<open>
  An event as the handlers use it: whether its default action has been prevented,
  whether its propagation has been stopped, and whether
  \<^verbatim>\<open>e.target.closest('.nav-card-link')\<close> finds an element.
\<close>

record event =
  defaultPrevented :: bool
  propagationStopped :: bool
  target_in_card_link :: bool

text \<open>
  The listener that \<open>initializeNavigation\<close> adds to every navigation link:
  \<^verbatim>\<open>
  (e) => {
      e.preventDefault();
      const targetId = link.getAttribute('href');
      if (targetId && targetId.startsWith('#')) {
          const sectionName = targetId.substring(1);
          if (CONFIG.urls[sectionName]) {
              window.open(CONFIG.urls[sectionName], '_blank');
              return;
          }
          const targetElement = Utils.safeQuerySelector(targetId);
          if (targetElement) {
              targetElement.scrollIntoView({ behavior: 'smooth', block: 'start' });
          }
      }
  }
  \<close>
  The result is the exception that left the handler, if any, the event and the state.
\<close>

definition navLinkClick ::
  "platform \<Rightarrow> config \<Rightarrow> document \<Rightarrow> elem \<Rightarrow> event \<Rightarrow> world \<Rightarrow> exn option \<times> event \<times> world" where
  "navLinkClick pf cfg doc link e w =
     (let e1 = e\<lparr>defaultPrevented := True\<rparr>
      in case getAttribute_href doc link of
           None \<Rightarrow> (None, e1, w)
         | Some targetId \<Rightarrow>
             if targetId \<noteq> [] \<and> take 1 targetId = ''#''
             then (let sectionName = drop 1 targetId
                   in if truthy (urls_get cfg sectionName)
                      then (None, e1, w\<lparr>opened := opened w @ [(urls_get cfg sectionName, ''_blank'')]\<rparr>)
                      else (case safeQuerySelector pf doc targetId w of
                              (Inl x, w1) \<Rightarrow> (Some x, e1, w1)
                            | (Inr None, w1) \<Rightarrow> (None, e1, w1)
                            | (Inr (Some targetElement), w1) \<Rightarrow>
                                (None, e1,
                                 w1\<lparr>scrolledIntoView := scrolledIntoView w1 @ [targetElement]\<rparr>)))
             else (None, e1, w))"

text \<open>
  The two click listeners that \<open>initializeCards\<close> adds for a card, on the card and on
  its inner link:
  \<^verbatim>\<open>
  (e) => {
      if (!e.target.closest('.nav-card-link')) {
          this.handleCardClick(link, section);
      }
  }
  (e) => {
      e.preventDefault();
      e.stopPropagation();
      this.handleCardClick(link, section);
  }
  \<close>
\<close>

definition cardClick ::
  "platform \<Rightarrow> config \<Rightarrow> elem \<Rightarrow> string \<Rightarrow> event \<Rightarrow> world \<Rightarrow> event \<times> world" where
  "cardClick pf cfg link section e w =
     (if \<not> target_in_card_link e then (e, handleCardClick pf cfg link section w) else (e, w))"

definition cardLinkClick ::
  "platform \<Rightarrow> config \<Rightarrow> elem \<Rightarrow> string \<Rightarrow> event \<Rightarrow> world \<Rightarrow> event \<times> world" where
  "cardLinkClick pf cfg link section e w =
     (e\<lparr>defaultPrevented := True, propagationStopped := True\<rparr>,
      handleCardClick pf cfg link section w)"

text \<open>
  The hover listeners of a card:
  \<^verbatim>\<open>
  function () { this.style.transform = 'translateY(-10px) scale(1.02)'; }
  function () { this.style.transform = 'translateY(0) scale(1)'; }
  \<close>
\<close>

definition cardMouseEnter :: "elem \<Rightarrow> world \<Rightarrow> world" where
  "cardMouseEnter navCard w =
     w\<lparr>style_transform := (style_transform w)(navCard := ''translateY(-10px) scale(1.02)'')\<rparr>"

definition cardMouseLeave :: "elem \<Rightarrow> world \<Rightarrow> world" where
  "cardMouseLeave navCard w =
     w\<lparr>style_transform := (style_transform w)(navCard := ''translateY(0) scale(1)'')\<rparr>"

subsection \<open>initializeNavigation, initializeCards, initializeIntersectionObserver\<close>

text \<open>
  \<^verbatim>\<open>
  bindEvents() {
      window.addEventListener('load', this.handleWindowLoad.bind(this));
      window.addEventListener('scroll', this.handleScroll.bind(this));
      window.addEventListener('error', this.handleError.bind(this));
      window.addEventListener('beforeunload', this.handleBeforeUnload.bind(this));
  }
  \<close>
\<close>

definition bindEvents :: "world \<Rightarrow> world" where
  "bindEvents w =
     addEventListener Window ''beforeunload'' HandleBeforeUnload
       (addEventListener Window ''error'' HandleError
         (addEventListener Window ''scroll'' HandleScroll
           (addEventListener Window ''load'' HandleWindowLoad w)))"

definition initializeNavigation :: "config \<Rightarrow> document \<Rightarrow> world \<Rightarrow> world" where
  "initializeNavigation cfg doc w =
     (case safeQuerySelectorAll doc (selectors_navLinks cfg) w of
        (navLinks, w1) \<Rightarrow>
          fold (\<lambda>link. addEventListener (Element link) ''click'' (NavLinkClick link)) navLinks w1)"

text \<open>
  \<^verbatim>\<open>
  addHoverEffects(card) {
      card.addEventListener('mouseenter', function () { ... });
      card.addEventListener('mouseleave', function () { ... });
  }
  \<close>
\<close>

definition addHoverEffects :: "elem \<Rightarrow> world \<Rightarrow> world" where
  "addHoverEffects navCard w =
     addEventListener (Element navCard) ''mouseleave'' CardMouseLeave
       (addEventListener (Element navCard) ''mouseenter'' CardMouseEnter w)"

text \<open>
  The body of the \<^verbatim>\<open>forEach\<close> of \<open>initializeCards\<close>, for one card:
  \<^verbatim>\<open>
  const link = card.querySelector('.nav-card-link');
  const section = card.dataset.section;
  if (!link || !section) return;
  card.addEventListener('click', (e) => { ... });
  this.addHoverEffects(card);
  link.addEventListener('click', (e) => { ... });
  \<close>
  An empty \<^verbatim>\<open>data-section\<close> is falsy, as a missing one is.
\<close>

definition initializeCard :: "document \<Rightarrow> elem \<Rightarrow> world \<Rightarrow> world" where
  "initializeCard doc navCard w =
     (case (nav_card_link doc navCard, dataset_section doc navCard) of
        (Some link, Some section) \<Rightarrow>
          if section = [] then w
          else addEventListener (Element link) ''click'' (CardLinkClick link section)
                 (addHoverEffects navCard
                   (addEventListener (Element navCard) ''click'' (CardClick link section) w))
      | _ \<Rightarrow> w)"

definition initializeCards :: "config \<Rightarrow> document \<Rightarrow> world \<Rightarrow> world" where
  "initializeCards cfg doc w =
     (case safeQuerySelectorAll doc (selectors_navCards cfg) w of
        (navCards, w1) \<Rightarrow> fold (initializeCard doc) navCards w1)"

text \<open>
  \<^verbatim>\<open>new IntersectionObserver(...)\<close> makes an observer with no target, named by its
  position; \<open>observe\<close> adds a target to it and \<open>disconnect\<close> drops all its targets.
\<close>

definition new_IntersectionObserver :: "world \<Rightarrow> nat \<times> world" where
  "new_IntersectionObserver w = (length (observers w), w\<lparr>observers := observers w @ [[]]\<rparr>)"

definition observe :: "nat \<Rightarrow> elem \<Rightarrow> world \<Rightarrow> world" where
  "observe ob navCard w =
     (if ob < length (observers w)
      then w\<lparr>observers := (observers w)[ob := observers w ! ob @ [navCard]]\<rparr>
      else w)"

definition disconnect :: "nat \<Rightarrow> world \<Rightarrow> world" where
  "disconnect ob w =
     (if ob < length (observers w) then w\<lparr>observers := (observers w)[ob := []]\<rparr> else w)"

text \<open>
  \<^verbatim>\<open>
  initializeIntersectionObserver() {
      const observerOptions = { ... };
      const observer = new IntersectionObserver((entries) => { ... }, observerOptions);
      const navCards = Utils.safeQuerySelectorAll(CONFIG.selectors.navCards);
      navCards.forEach(card => { observer.observe(card); });
  }
  \<close>
  The observer is a local constant: no field of \<^verbatim>\<open>App\<close> is assigned.
\<close>

definition initializeIntersectionObserver :: "config \<Rightarrow> document \<Rightarrow> world \<Rightarrow> world" where
  "initializeIntersectionObserver cfg doc w =
     (case new_IntersectionObserver w of
        (observer, w1) \<Rightarrow>
          (case safeQuerySelectorAll doc (selectors_navCards cfg) w1 of
             (navCards, w2) \<Rightarrow> fold (observe observer) navCards w2))"

text \<open>
  \<^verbatim>\<open>
  init() { this.bindEvents(); this.initializeComponents(); }
  initializeComponents() {
      this.initializeNavigation();
      this.initializeCards();
      this.initializeIntersectionObserver();
  }
  cleanup() {
      if (this.intersectionObserver) { this.intersectionObserver.disconnect(); }
  }
  \<close>
\<close>

definition initializeComponents :: "config \<Rightarrow> document \<Rightarrow> world \<Rightarrow> world" where
  "initializeComponents cfg doc w =
     initializeIntersectionObserver cfg doc (initializeCards cfg doc (initializeNavigation cfg doc w))"

definition init :: "config \<Rightarrow> document \<Rightarrow> world \<Rightarrow> world" where
  "init cfg doc w = initializeComponents cfg doc (bindEvents w)"

definition cleanup :: "world \<Rightarrow> world" where
  "cleanup w =
     (case intersectionObserver w of
        None \<Rightarrow> w
      | Some ob \<Rightarrow> disconnect ob w)"

subsection \<open>updateScrollIndicator and updateHeaderVisibility\<close>

text \<open>
  \<^verbatim>\<open>
  const scrollTop = document.documentElement.scrollTop;
  const scrollHeight = document.documentElement.scrollHeight
                     - document.documentElement.clientHeight;
  const scrollPercent = scrollHeight > 0 ? (scrollTop / scrollHeight) * 100 : 0;
  \<close>
  The difference of the two integer heights is exact in doubles; the quotient and the
  product are rounded.
\<close>

definition scrollPercent :: "document \<Rightarrow> number" where
  "scrollPercent doc =
     (let scroll_top = scrollTop doc;
          scroll_height = scrollHeight doc - clientHeight doc
      in if scroll_height > 0
         then js_mul (js_div (Fin scroll_top) (Fin (of_int scroll_height))) (Fin 100)
         else Fin 0)"

text \<open>
  \<^verbatim>\<open>
  updateScrollIndicator() {
      const scrollIndicator = Utils.safeQuerySelector(CONFIG.selectors.scrollIndicator);
      if (!scrollIndicator) return;
      ...
      scrollIndicator.style.width = `${scrollPercent}%`;
  }
  \<close>
\<close>

definition updateScrollIndicator ::
  "platform \<Rightarrow> config \<Rightarrow> document \<Rightarrow> world \<Rightarrow> exn option \<times> world" where
  "updateScrollIndicator pf cfg doc w =
     (case safeQuerySelector pf doc (selectors_scrollIndicator cfg) w of
        (Inl x, w1) \<Rightarrow> (Some x, w1)
      | (Inr None, w1) \<Rightarrow> (None, w1)
      | (Inr (Some scrollIndicator), w1) \<Rightarrow>
          (None, w1\<lparr>style_width := (style_width w1)(scrollIndicator := Percent (scrollPercent doc))\<rparr>))"

text \<open>
  \<^verbatim>\<open>
  updateHeaderVisibility() {
      if (!this.lastScrollTop) this.lastScrollTop = 0;
      const scrollTop = window.pageYOffset || document.documentElement.scrollTop;
      const header = Utils.safeQuerySelector(CONFIG.selectors.header);
      if (!header) return;
      if (scrollTop > this.lastScrollTop && scrollTop > 100) {
          header.style.transform = 'translateY(-100%)';
      } else {
          header.style.transform = 'translateY(0)';
      }
      this.lastScrollTop = scrollTop <= 0 ? 0 : scrollTop;
  }
  \<close>
\<close>

text \<open>
  \<open>current_offset\<close> is the \<^verbatim>\<open>scrollTop\<close> of the update, the page offset unless it is
  zero; \<open>stored_offset\<close> is \<^verbatim>\<open>this.lastScrollTop\<close> as the comparison reads it, after
  the first line has put 0 for an undefined one.
\<close>

definition current_offset :: "document \<Rightarrow> rat" where
  "current_offset doc = (if pageYOffset doc \<noteq> 0 then pageYOffset doc else scrollTop doc)"

definition stored_offset :: "world \<Rightarrow> rat" where
  "stored_offset w = (case lastScrollTop w of None \<Rightarrow> 0 | Some x \<Rightarrow> x)"

definition updateHeaderVisibility ::
  "platform \<Rightarrow> config \<Rightarrow> document \<Rightarrow> world \<Rightarrow> exn option \<times> world" where
  "updateHeaderVisibility pf cfg doc w =
     (let w0 = (if lastScrollTop w = None \<or> lastScrollTop w = Some 0
                then w\<lparr>lastScrollTop := Some 0\<rparr> else w);
          scroll_top = current_offset doc
      in case safeQuerySelector pf doc (selectors_header cfg) w0 of
           (Inl x, w1) \<Rightarrow> (Some x, w1)
         | (Inr None, w1) \<Rightarrow> (None, w1)
         | (Inr (Some header), w1) \<Rightarrow>
             (let w2 = (if scroll_top > stored_offset w1 \<and> scroll_top > 100
                        then w1\<lparr>style_transform := (style_transform w1)(header := ''translateY(-100%)'')\<rparr>
                        else w1\<lparr>style_transform := (style_transform w1)(header := ''translateY(0)'')\<rparr>)
              in (None, w2\<lparr>lastScrollTop := Some (if scroll_top \<le> 0 then 0 else scroll_top)\<rparr>)))"

subsection \<open>A page to run examples on\<close>

text \<open>
  The state when the script starts: nothing logged, registered or pending, and both
  fields of \<^verbatim>\<open>App\<close> undefined. The platform of the examples parses with
  \<open>demoURL\<close>, has no \<^verbatim>\<open>process\<close> global and never refuses a navigation.
\<close>

definition initial_world :: world where
  "initial_world =
     \<lparr>console = [], listeners = [], timers = [], observers = [],
      location_href = JStr ''about:blank'', opened = [], scrolledIntoView = [],
      style_opacity = (\<lambda>_. []), style_transform = (\<lambda>_. []), style_width = (\<lambda>_. Unset),
      textContent = (\<lambda>_. []), lastScrollTop = None, intersectionObserver = None\<rparr>"

definition demo_platform :: platform where
  "demo_platform = \<lparr>new_URL = demoURL, NODE_ENV = None, navigation_throws = (\<lambda>_. None)\<rparr>"

text \<open>
  A document with three navigation links (1 to an absolute URL, 2 and 3 to fragments),
  four cards (10 and 11 complete, 12 with no inner link, 13 with no section), a header
  (20), a scroll indicator (21) and an element with id \<open>about\<close> (30), scrolled to 250
  of a page 1000 high in a window 500 high.
\<close>

definition demo_document :: document where
  "demo_document =
     \<lparr>querySelector = (\<lambda>s. if s = ''header'' then Inr (Some 20)
                           else if s = ''#scrollIndicator'' then Inr (Some 21)
                           else if s = ''#about'' then Inr (Some 30)
                           else if s = ''#'' then Inl SyntaxError
                           else Inr None),
      querySelectorAll = (\<lambda>s. if s = ''.nav-links a'' then Inr [1, 2, 3]
                              else if s = ''.nav-card'' then Inr [10, 11, 12, 13]
                              else Inr []),
      nav_card_link = (\<lambda>c. if c = 10 then Some 40 else if c = 11 then Some 41
                           else if c = 13 then Some 43 else None),
      dataset_section = (\<lambda>c. if c = 10 then Some ''blog'' else if c = 11 then Some ''about''
                             else if c = 12 then Some ''blog'' else None),
      getAttribute_href = (\<lambda>l. if l = 1 then Some ''https://example.com/''
                               else if l = 2 then Some ''#blog''
                               else if l = 3 then Some ''#about'' else None),
      scrollTop = 250, scrollHeight = 1000, clientHeight = 500, pageYOffset = 250\<rparr>"

definition fresh_event :: event where
  "fresh_event = \<lparr>defaultPrevented = False, propagationStopped = False, target_in_card_link = False\<rparr>"

section \<open>Utils.sanitizeInput\<close>

text \<open>
  The part of the DOM that \<open>sanitizeInput\<close> uses: an element with its children, and
  text nodes. Setting \<^verbatim>\<open>textContent\<close> on an element replaces its children by one text
  node holding the string as it is (by nothing for the empty string); reading it
  concatenates the text of the descendants.
\<close>

datatype node = Text string | Elem string "node list"

definition createElement :: "string \<Rightarrow> node" where
  "createElement tag = Elem tag []"

fun set_textContent :: "string \<Rightarrow> node \<Rightarrow> node" where
  "set_textContent s (Elem tag children) = Elem tag (if s = [] then [] else [Text s])"
| "set_textContent s (Text old) = Text s"

fun get_textContent :: "node \<Rightarrow> string" where
  "get_textContent (Text s) = s"
| "get_textContent (Elem tag children) = concat (map get_textContent children)"

text \<open>
  \<^verbatim>\<open>
  sanitizeInput(str) {
      if (typeof str !== 'string') return '';
      const div = document.createElement('div');
      div.textContent = str;
      return div.textContent;
  }
  \<close>
\<close>

definition sanitizeInput :: "jsval \<Rightarrow> string" where
  "sanitizeInput str =
     (case str of
        JStr s \<Rightarrow> (let el = set_textContent s (createElement ''div'') in get_textContent el)
      | _ \<Rightarrow> [])"

text \<open>
  What the specification asks of the result, for comparison: the text written as
  markup writes a text node, with \<open>&\<close>, \<open><\<close> and \<open>>\<close> as character references.
\<close>

fun text_node_encoding :: "string \<Rightarrow> string" where
  "text_node_encoding [] = []"
| "text_node_encoding (c # cs) =
     (if c = CHR ''&'' then ''&amp;''
      else if c = CHR ''<'' then ''&lt;''
      else if c = CHR ''>'' then ''&gt;''
      else [c]) @ text_node_encoding cs"

section \<open>CONFIG as an object graph\<close>

text \<open>
  Whether \<^verbatim>\<open>CONFIG\<close> can be changed depends on which of its objects are frozen, so
  here the objects are explicit: a heap of objects, each with its own properties and
  a frozen flag; \<open>JObj a\<close> is the reference to the object at address \<open>a\<close>.
\<close>

record obj =
  props :: "string \<Rightarrow> jsval option"
  frozen :: bool

record heap =
  objs :: "nat \<Rightarrow> obj option"
  fresh :: nat

definition empty_heap :: heap where
  "empty_heap = \<lparr>objs = (\<lambda>_. None), fresh = 1\<rparr>"

text \<open>An object or array literal: a new object, not frozen.\<close>

definition literal :: "(string \<times> jsval) list \<Rightarrow> heap \<Rightarrow> jsval \<times> heap" where
  "literal ps h =
     (JObj (fresh h),
      h\<lparr>objs := (objs h)(fresh h \<mapsto> \<lparr>props = map_of ps, frozen = False\<rparr>), fresh := fresh h + 1\<rparr>)"

text \<open>
  \<^verbatim>\<open>Object.freeze(o)\<close> freezes the object itself, not the objects its properties
  refer to, and returns its argument.
\<close>

definition Object_freeze :: "jsval \<Rightarrow> heap \<Rightarrow> jsval \<times> heap" where
  "Object_freeze v h =
     (case v of
        JObj a \<Rightarrow>
          (case objs h a of
             Some ob \<Rightarrow> (v, h\<lparr>objs := (objs h)(a \<mapsto> ob\<lparr>frozen := True\<rparr>)\<rparr>)
           | None \<Rightarrow> (v, h))
      | _ \<Rightarrow> (v, h))"

text \<open>
  Reading \<^verbatim>\<open>o[k]\<close> on an object: an own property, else what \<^verbatim>\<open>Object.prototype\<close>
  gives. On undefined and null it is a TypeError. The properties of strings, numbers
  and booleans are not modelled (no path into \<^verbatim>\<open>CONFIG\<close> used below goes through
  one): such a read gives undefined here.
\<close>

definition get_prop :: "heap \<Rightarrow> jsval \<Rightarrow> string \<Rightarrow> exn + jsval" where
  "get_prop h v k =
     (case v of
        JObj a \<Rightarrow>
          (case objs h a of
             Some ob \<Rightarrow> (case props ob k of Some x \<Rightarrow> Inr x | None \<Rightarrow> Inr (Object_prototype k))
           | None \<Rightarrow> Inr (Object_prototype k))
      | JUndefined \<Rightarrow> Inl TypeError
      | JNull \<Rightarrow> Inl TypeError
      | _ \<Rightarrow> Inr JUndefined)"

text \<open>
  The assignment \<^verbatim>\<open>o[k] = x\<close> in strict mode, which the file declares: a TypeError on
  a frozen object and on a value that is no object, an update of the object otherwise.
\<close>

definition set_prop :: "jsval \<Rightarrow> string \<Rightarrow> jsval \<Rightarrow> heap \<Rightarrow> exn + heap" where
  "set_prop v k x h =
     (case v of
        JObj a \<Rightarrow>
          (case objs h a of
             Some ob \<Rightarrow>
               if frozen ob then Inl TypeError
               else Inr (h\<lparr>objs := (objs h)(a \<mapsto> ob\<lparr>props := (props ob)(k \<mapsto> x)\<rparr>)\<rparr>)
           | None \<Rightarrow> Inl TypeError)
      | _ \<Rightarrow> Inl TypeError)"

text \<open>\<^verbatim>\<open>root.k1.k2...\<close> read, and \<^verbatim>\<open>root.k1.k2... = x\<close> assigned.\<close>

fun read_path :: "heap \<Rightarrow> jsval \<Rightarrow> string list \<Rightarrow> exn + jsval" where
  "read_path h v [] = Inr v"
| "read_path h v (k # ks) =
     (case get_prop h v k of Inl e \<Rightarrow> Inl e | Inr x \<Rightarrow> read_path h x ks)"

fun assign_path :: "jsval \<Rightarrow> string list \<Rightarrow> jsval \<Rightarrow> heap \<Rightarrow> exn + heap" where
  "assign_path v [] x h = Inl TypeError"
| "assign_path v [k] x h = set_prop v k x h"
| "assign_path v (k # ks) x h =
     (case get_prop h v k of Inl e \<Rightarrow> Inl e | Inr y \<Rightarrow> assign_path y ks x h)"

text \<open>
  \<^verbatim>\<open>
  const CONFIG = Object.freeze({
      urls: Object.freeze({ blog: 'https://blog.qulluq.com/' }),
      security: Object.freeze({
          allowedDomains: Object.freeze(['qulluq.com', 'blog.qulluq.com']),
          maxRedirectDelay: 1000
      }),
      selectors: { loading: '#loading', scrollIndicator: '#scrollIndicator',
                   navLinks: '.nav-links a', navCards: '.nav-card', header: 'header' },
      classes: { hidden: 'hidden' },
      animation: { loadingDelay: 1000, navigationDelay: 500 }
  });
  \<close>
  The result is the reference bound to \<^verbatim>\<open>CONFIG\<close> and the heap that holds its seven
  objects.
\<close>

definition CONFIG_object :: "jsval \<times> heap" where
  "CONFIG_object =
     (case literal [(''blog'', JStr ''https://blog.qulluq.com/'')] empty_heap of (o1, h1) \<Rightarrow>
      case Object_freeze o1 h1 of (urls_ref, h2) \<Rightarrow>
      case literal [(''0'', JStr ''qulluq.com''), (''1'', JStr ''blog.qulluq.com''),
                    (''length'', JNum (Fin 2))] h2 of (o2, h3) \<Rightarrow>
      case Object_freeze o2 h3 of (domains_ref, h4) \<Rightarrow>
      case literal [(''allowedDomains'', domains_ref),
                    (''maxRedirectDelay'', JNum (Fin 1000))] h4 of (o3, h5) \<Rightarrow>
      case Object_freeze o3 h5 of (security_ref, h6) \<Rightarrow>
      case literal [(''loading'', JStr ''#loading''),
                    (''scrollIndicator'', JStr ''#scrollIndicator''),
                    (''navLinks'', JStr ''.nav-links a''),
                    (''navCards'', JStr ''.nav-card''),
                    (''header'', JStr ''header'')] h6 of (selectors_ref, h7) \<Rightarrow>
      case literal [(''hidden'', JStr ''hidden'')] h7 of (classes_ref, h8) \<Rightarrow>
      case literal [(''loadingDelay'', JNum (Fin 1000)),
                    (''navigationDelay'', JNum (Fin 500))] h8 of (animation_ref, h9) \<Rightarrow>
      case literal [(''urls'', urls_ref), (''security'', security_ref),
                    (''selectors'', selectors_ref), (''classes'', classes_ref),
                    (''animation'', animation_ref)] h9 of (o7, h10) \<Rightarrow>
      Object_freeze o7 h10)"

section \<open>Utils.debounce\<close>

text \<open>
  Timers with a clock. A pending timer is its id, the time it is due, and what its
  callback captured: the \<^verbatim>\<open>this\<close> and the arguments of the call that set it. The
  state of one debounced function is the clock, the next timer id, the pending timers
  in the order they were set, the variable \<^verbatim>\<open>timeout\<close> of the closure (\<open>None\<close> while
  undefined), and the calls of \<^verbatim>\<open>func\<close> made so far, each with its \<^verbatim>\<open>this\<close> and
  arguments.
\<close>

record ('c, 'a) debounced =
  clock :: nat
  next_id :: nat
  pending :: "(nat \<times> nat \<times> 'c \<times> 'a) list"
  timeout :: "nat option"
  calls :: "('c \<times> 'a) list"

text \<open>\<^verbatim>\<open>clearTimeout(id)\<close>: nothing for undefined or an id that is not pending.\<close>

definition clear_timeout :: "nat option \<Rightarrow> ('c, 'a) debounced \<Rightarrow> ('c, 'a) debounced" where
  "clear_timeout t s =
     (case t of
        None \<Rightarrow> s
      | Some i \<Rightarrow> s\<lparr>pending := filter (\<lambda>p. fst p \<noteq> i) (pending s)\<rparr>)"

text \<open>\<^verbatim>\<open>setTimeout(later, wait)\<close>: a new id, due \<open>wait\<close> after now.\<close>

definition set_timeout ::
  "nat \<Rightarrow> 'c \<Rightarrow> 'a \<Rightarrow> ('c, 'a) debounced \<Rightarrow> nat \<times> ('c, 'a) debounced" where
  "set_timeout wait this args s =
     (next_id s,
      s\<lparr>pending := pending s @ [(next_id s, clock s + wait, this, args)],
        next_id := next_id s + 1\<rparr>)"

text \<open>
  \<^verbatim>\<open>
  debounce(func, wait) {
      let timeout;
      return function executedFunction(...args) {
          const later = () => {
              clearTimeout(timeout);
              func.apply(this, args);
          };
          clearTimeout(timeout);
          timeout = setTimeout(later, wait);
      };
  }
  \<close>
\<close>

definition later :: "'c \<Rightarrow> 'a \<Rightarrow> ('c, 'a) debounced \<Rightarrow> ('c, 'a) debounced" where
  "later this args s =
     (let s1 = clear_timeout (timeout s) s
      in s1\<lparr>calls := calls s1 @ [(this, args)]\<rparr>)"

definition executedFunction :: "nat \<Rightarrow> 'c \<Rightarrow> 'a \<Rightarrow> ('c, 'a) debounced \<Rightarrow> ('c, 'a) debounced" where
  "executedFunction wait this args s =
     (let s1 = clear_timeout (timeout s) s
      in case set_timeout wait this args s1 of
           (i, s2) \<Rightarrow> s2\<lparr>timeout := Some i\<rparr>)"

text \<open>
  \<^verbatim>\<open>debounce(func, wait)\<close> declares \<^verbatim>\<open>timeout\<close>, leaves it undefined and returns
  \<open>executedFunction\<close>: what the call makes is this state, here at time 0 with no timer
  set yet.
\<close>

definition debounce :: "('c, 'a) debounced" where
  "debounce = \<lparr>clock = 0, next_id = 1, pending = [], timeout = None, calls = []\<rparr>"

text \<open>
  The event loop: of the timers due by \<open>t\<close>, the earliest runs first, and of two due at
  the same time the one set first.
\<close>

fun earliest :: "(nat \<times> nat \<times> 'c \<times> 'a) list \<Rightarrow> (nat \<times> nat \<times> 'c \<times> 'a) option" where
  "earliest [] = None"
| "earliest (p # ps) =
     (case earliest ps of
        None \<Rightarrow> Some p
      | Some q \<Rightarrow> if fst (snd p) \<le> fst (snd q) then Some p else Some q)"

definition next_due :: "nat \<Rightarrow> ('c, 'a) debounced \<Rightarrow> (nat \<times> nat \<times> 'c \<times> 'a) option" where
  "next_due t s = earliest (filter (\<lambda>p. fst (snd p) \<le> t) (pending s))"

text \<open>
  Time passes until \<open>t\<close>: every timer due by then runs, at its time, and the clock ends
  at \<open>t\<close> (it never goes back). Running a timer takes it off the pending list, so the
  loop ends.
\<close>

function run_until :: "nat \<Rightarrow> ('c, 'a) debounced \<Rightarrow> ('c, 'a) debounced" where
  "run_until t s =
     (case next_due t s of
        None \<Rightarrow> s\<lparr>clock := max (clock s) t\<rparr>
      | Some (i, due, this, args) \<Rightarrow>
          run_until t
            (later this args
               (s\<lparr>pending := filter (\<lambda>p. fst p \<noteq> i) (pending s),
                  clock := max (clock s) due\<rparr>)))"
  by pat_completeness auto
termination
proof (relation "measure (\<lambda>(t, s). length (pending s))")
  show "wf (measure (\<lambda>(t, s). length (pending s)))"
    by simp
next
  fix t s x i y due z this args
  assume n: "next_due t s = Some x" and x: "(i, y) = x" "(due, z) = y" "(this, args) = z"
  let ?s = "s\<lparr>pending := filter (\<lambda>p. fst p \<noteq> i) (pending s), clock := max (clock s) due\<rparr>"
  have mem: "earliest ps = Some p \<Longrightarrow> p \<in> set ps" for p ps
    by (induction ps arbitrary: p) (auto split: option.splits if_splits)
  from n have "x \<in> set (pending s)"
    using mem [of "filter (\<lambda>p. fst (snd p) \<le> t) (pending s)" x] by (simp add: next_due_def)
  with x have "(i, due, this, args) \<in> set (pending s)"
    by auto
  then have "length (filter (\<lambda>p. fst p \<noteq> i) (pending s)) < length (pending s)"
    by (intro length_filter_less [where x = "(i, due, this, args)"]) simp_all
  moreover have "length (pending (later this args ?s)) \<le> length (pending ?s)"
    by (simp add: later_def clear_timeout_def Let_def del: filter_filter split: option.splits)
  ultimately show "((t, later this args ?s), t, s) \<in> measure (\<lambda>(t, s). length (pending s))"
    by simp
qed

text \<open>
  A call of the debounced function at time \<open>t\<close>, with its \<^verbatim>\<open>this\<close> and arguments:
  the timers due before run first.
\<close>

fun invoke_at :: "nat \<Rightarrow> nat \<times> 'c \<times> 'a \<Rightarrow> ('c, 'a) debounced \<Rightarrow> ('c, 'a) debounced" where
  "invoke_at wait (t, this, args) s = executedFunction wait this args (run_until t s)"

text \<open>
  A burst after a call at time \<open>prev\<close>: every call comes before the timer of the one
  before it is due, that is less than \<open>wait\<close> after it.
\<close>

fun burst :: "nat \<Rightarrow> nat \<Rightarrow> (nat \<times> 'c \<times> 'a) list \<Rightarrow> bool" where
  "burst wait prev [] = True"
| "burst wait prev ((t, this, args) # cs) = (prev \<le> t \<and> t < prev + wait \<and> burst wait t cs)"

declare run_until.simps [simp del]

section \<open>Verification: Utils.isValidUrl\<close>

lemma endsWith_suffix: "endsWith s t \<longleftrightarrow> suffix t s"
proof
  assume "endsWith s t"
  then have "s = take (length s - length t) s @ t"
    by (metis append_take_drop_id endsWith_def)
  then show "suffix t s"
    by (metis suffixI)
next
  assume "suffix t s"
  then obtain p where "s = p @ t"
    by (auto simp: suffix_def)
  then show "endsWith s t"
    by (simp add: endsWith_def)
qed

lemma isValidUrl_iff:
  "isValidUrl URL v ds \<longleftrightarrow>
     (\<exists>s u. v = JStr s \<and> URL s = Some u
        \<and> (protocol u = ''http:'' \<or> protocol u = ''https:'')
        \<and> (ds = [] \<or> (\<exists>d \<in> set ds. hostname u = d \<or> suffix (''.'' @ d) (hostname u))))"
  by (cases v; cases ds)
     (auto simp: isValidUrl_def Let_def list_ex_iff endsWith_suffix split: option.splits)

text \<open>
  C2. \<open>isValidUrl\<close> is false for every candidate that is not a string and for every
  string that does not parse, whatever the allow-list; it is true only for a string
  that parses with protocol \<open>http:\<close> or \<open>https:\<close>; with a non-empty allow-list it is
  true exactly when, besides, the host is an allowed domain or ends with a dot followed
  by one; with the empty allow-list the protocol alone decides.
\<close>

theorem isValidUrl_spec:
  "((\<forall>s. candidate \<noteq> JStr s) \<longrightarrow> \<not> isValidUrl URL candidate ds)
   \<and> (URL s = None \<longrightarrow> \<not> isValidUrl URL (JStr s) ds)
   \<and> (isValidUrl URL candidate ds \<longrightarrow>
        (\<exists>s u. candidate = JStr s \<and> URL s = Some u
           \<and> (protocol u = ''http:'' \<or> protocol u = ''https:'')))
   \<and> (URL s = Some u \<and> ds \<noteq> [] \<longrightarrow>
        (isValidUrl URL (JStr s) ds \<longleftrightarrow>
           (protocol u = ''http:'' \<or> protocol u = ''https:'')
           \<and> (\<exists>d \<in> set ds. hostname u = d \<or> suffix (''.'' @ d) (hostname u))))
   \<and> (URL s = Some u \<longrightarrow>
        (isValidUrl URL (JStr s) [] \<longleftrightarrow> protocol u = ''http:'' \<or> protocol u = ''https:''))"
proof (intro conjI impI)
  assume "\<forall>s. candidate \<noteq> JStr s"
  then show "\<not> isValidUrl URL candidate ds"
    by (simp add: isValidUrl_iff)
next
  assume "URL s = None"
  then show "\<not> isValidUrl URL (JStr s) ds"
    by (simp add: isValidUrl_iff)
next
  assume "isValidUrl URL candidate ds"
  then show "\<exists>s u. candidate = JStr s \<and> URL s = Some u
      \<and> (protocol u = ''http:'' \<or> protocol u = ''https:'')"
    unfolding isValidUrl_iff by blast
next
  assume "URL s = Some u \<and> ds \<noteq> []"
  then show "isValidUrl URL (JStr s) ds \<longleftrightarrow>
      (protocol u = ''http:'' \<or> protocol u = ''https:'')
      \<and> (\<exists>d \<in> set ds. hostname u = d \<or> suffix (''.'' @ d) (hostname u))"
    by (simp add: isValidUrl_iff)
next
  assume "URL s = Some u"
  then show "isValidUrl URL (JStr s) [] \<longleftrightarrow> protocol u = ''http:'' \<or> protocol u = ''https:''"
    by (simp add: isValidUrl_iff)
qed

theorem isValidUrl_spec_witness:
  "\<not> isValidUrl demoURL (JNum (Fin 5)) [''example.com'']
   \<and> \<not> isValidUrl demoURL (JStr ''example.com/x'') [''example.com'']
   \<and> isValidUrl demoURL (JStr ''https://sub.example.com'') [''example.com'']
   \<and> isValidUrl demoURL (JStr ''https://sub.example.com'') []"
proof -
  let ?u = "\<lparr>protocol = ''https:'', hostname = ''sub.example.com''\<rparr>"
  have p: "demoURL ''https://sub.example.com'' = Some ?u"
    by (simp add: demoURL_def)
  have q: "demoURL ''example.com/x'' = None"
    by (simp add: demoURL_def)
  have d: "suffix ''.example.com'' ''sub.example.com''"
    by (simp add: endsWith_suffix [symmetric] endsWith_def)
  from isValidUrl_spec [of "JNum (Fin 5)" demoURL "[''example.com'']" "''https://sub.example.com''" ?u]
    isValidUrl_spec [of "JNum (Fin 5)" demoURL "[''example.com'']" "''example.com/x''" ?u]
    p q d
  show ?thesis
    by simp
qed

text \<open>The four examples of the specification, run on the demonstration parser.\<close>

lemma isValidUrl_examples:
  "isValidUrl demoURL (JStr ''https://example.com/x'') [''example.com'']"
  "\<not> isValidUrl demoURL (JStr ''https://evil.com'') [''example.com'']"
  "\<not> isValidUrl demoURL (JStr ''ftp://example.com'') [''example.com'']"
  "isValidUrl demoURL (JStr ''https://sub.example.com'') [''example.com'']"
  by (simp_all add: isValidUrl_def demoURL_def endsWith_def)

section \<open>Verification: App.handleCardClick\<close>

text \<open>
  The three branches of the handler, by the value that \<^verbatim>\<open>CONFIG.urls[section]\<close>
  reads as.
\<close>

lemma handleCardClick_unconfigured:
  "\<not> truthy (urls_get cfg section) \<Longrightarrow>
     handleCardClick pf cfg link section w =
       w\<lparr>console := console w @ [(Warn, [Lit ''No URL configured for section: '', Val (JStr section)])]\<rparr>"
  by (simp add: handleCardClick_def console_warn_def)

lemma handleCardClick_refused:
  "truthy (urls_get cfg section) \<Longrightarrow>
   \<not> isValidUrl (new_URL pf) (urls_get cfg section) (security_allowedDomains cfg) \<Longrightarrow>
     handleCardClick pf cfg link section w =
       w\<lparr>console := console w @
           [(Err, [Lit ''Invalid or unauthorized URL: '', Val (urls_get cfg section)])]\<rparr>"
  by (simp add: handleCardClick_def console_error_def)

lemma handleCardClick_accepted:
  "truthy (urls_get cfg section) \<Longrightarrow>
   isValidUrl (new_URL pf) (urls_get cfg section) (security_allowedDomains cfg) \<Longrightarrow>
     handleCardClick pf cfg link section w =
       w\<lparr>timers := timers w @ [(min (animation_navigationDelay cfg) (security_maxRedirectDelay cfg),
                                 Navigate (urls_get cfg section) link (textContent w link))],
         style_opacity := (style_opacity w)(link := ''0.7''),
         textContent := (textContent w)(link := loading_label)\<rparr>"
  by (simp add: handleCardClick_def setTimeout_def Let_def)

lemma handleCardClick_location:
  "location_href (handleCardClick pf cfg link section w) = location_href w"
  by (simp add: handleCardClick_def setTimeout_def console_warn_def console_error_def Let_def)

text \<open>
  The location is written by the timer's callback only, and only with the target the
  callback carries.
\<close>

lemma run_callback_location:
  "location_href (run_callback pf cb w) \<noteq> location_href w \<Longrightarrow>
     \<exists>link text. cb = Navigate (location_href (run_callback pf cb w)) link text"
  by (cases cb) (auto simp: console_error_def Let_def split: option.splits)

lemma CONFIG_urls_examples:
  "urls_get CONFIG ''blog'' = JStr ''https://blog.qulluq.com/''"
  "urls_get CONFIG ''about'' = JUndefined"
  "urls_get CONFIG ''constructor'' = JObj 0"
  by (simp_all add: CONFIG_def urls_get_def Object_prototype_def)

lemma blog_url_valid:
  "isValidUrl (new_URL demo_platform) (JStr ''https://blog.qulluq.com/'')
     (security_allowedDomains CONFIG)"
  by (simp add: isValidUrl_def demo_platform_def demoURL_def CONFIG_def endsWith_def)

text \<open>
  Where the section has an entry of its own, or has none and its name is no property
  that every object inherits, the handler does what is meant: one warning and nothing
  else for a section with no entry; one error and nothing else for an entry that is
  truthy and fails \<open>isValidUrl\<close> against the configured allow-list; a timer only for
  a value that passes \<open>isValidUrl\<close>, the one navigation to it; and never a change of
  the location by the call itself.
\<close>

lemma handleCardClick_own_entries:
  "(urls cfg section = None \<and> Object_prototype section = JUndefined \<longrightarrow>
      handleCardClick pf cfg link section w =
        w\<lparr>console := console w @
             [(Warn, [Lit ''No URL configured for section: '', Val (JStr section)])]\<rparr>)
   \<and> (\<forall>u. urls cfg section = Some u \<and> truthy u
          \<and> \<not> isValidUrl (new_URL pf) u (security_allowedDomains cfg) \<longrightarrow>
      handleCardClick pf cfg link section w =
        w\<lparr>console := console w @ [(Err, [Lit ''Invalid or unauthorized URL: '', Val u])]\<rparr>)
   \<and> (timers (handleCardClick pf cfg link section w) \<noteq> timers w \<longrightarrow>
      isValidUrl (new_URL pf) (urls_get cfg section) (security_allowedDomains cfg)
      \<and> timers (handleCardClick pf cfg link section w) =
          timers w @ [(min (animation_navigationDelay cfg) (security_maxRedirectDelay cfg),
                       Navigate (urls_get cfg section) link (textContent w link))])
   \<and> location_href (handleCardClick pf cfg link section w) = location_href w"
proof (intro conjI impI allI)
  assume "urls cfg section = None \<and> Object_prototype section = JUndefined"
  then have "\<not> truthy (urls_get cfg section)"
    by (simp add: urls_get_def)
  then show "handleCardClick pf cfg link section w =
      w\<lparr>console := console w @
           [(Warn, [Lit ''No URL configured for section: '', Val (JStr section)])]\<rparr>"
    by (rule handleCardClick_unconfigured)
next
  fix u
  assume "urls cfg section = Some u \<and> truthy u
      \<and> \<not> isValidUrl (new_URL pf) u (security_allowedDomains cfg)"
  then have "urls_get cfg section = u" "truthy (urls_get cfg section)"
    "\<not> isValidUrl (new_URL pf) (urls_get cfg section) (security_allowedDomains cfg)"
    by (simp_all add: urls_get_def)
  then show "handleCardClick pf cfg link section w =
      w\<lparr>console := console w @ [(Err, [Lit ''Invalid or unauthorized URL: '', Val u])]\<rparr>"
    using handleCardClick_refused [of cfg "section" pf link w] by simp
next
  assume changed: "timers (handleCardClick pf cfg link section w) \<noteq> timers w"
  have configured: "truthy (urls_get cfg section)"
  proof (rule ccontr)
    assume "\<not> truthy (urls_get cfg section)"
    then have "timers (handleCardClick pf cfg link section w) = timers w"
      by (simp add: handleCardClick_unconfigured)
    with changed show False by simp
  qed
  show valid: "isValidUrl (new_URL pf) (urls_get cfg section) (security_allowedDomains cfg)"
  proof (rule ccontr)
    assume "\<not> isValidUrl (new_URL pf) (urls_get cfg section) (security_allowedDomains cfg)"
    with configured have "timers (handleCardClick pf cfg link section w) = timers w"
      by (simp add: handleCardClick_refused)
    with changed show False by simp
  qed
  from configured valid
  show "timers (handleCardClick pf cfg link section w) =
      timers w @ [(min (animation_navigationDelay cfg) (security_maxRedirectDelay cfg),
                   Navigate (urls_get cfg section) link (textContent w link))]"
    by (simp add: handleCardClick_accepted)
next
  show "location_href (handleCardClick pf cfg link section w) = location_href w"
    by (rule handleCardClick_location)
qed

text \<open>
  On the configuration of the source: \<open>about\<close> has no entry and gets the warning, and
  \<open>blog\<close> gets its navigation, after 500 ms.
\<close>

lemma handleCardClick_examples:
  "handleCardClick demo_platform CONFIG 7 ''about'' initial_world =
      initial_world\<lparr>console :=
        [(Warn, [Lit ''No URL configured for section: '', Val (JStr ''about'')])]\<rparr>"
  "timers (handleCardClick demo_platform CONFIG 7 ''blog'' initial_world) =
      [(500, Navigate (JStr ''https://blog.qulluq.com/'') 7 [])]"
proof -
  have "\<not> truthy (urls_get CONFIG ''about'')"
    by (simp add: CONFIG_urls_examples)
  then show "handleCardClick demo_platform CONFIG 7 ''about'' initial_world =
      initial_world\<lparr>console :=
        [(Warn, [Lit ''No URL configured for section: '', Val (JStr ''about'')])]\<rparr>"
    by (simp add: handleCardClick_unconfigured) (simp add: initial_world_def)
  have "truthy (urls_get CONFIG ''blog'')"
    and "isValidUrl (new_URL demo_platform) (urls_get CONFIG ''blog'') (security_allowedDomains CONFIG)"
    using blog_url_valid by (simp_all add: CONFIG_urls_examples)
  then have "handleCardClick demo_platform CONFIG 7 ''blog'' initial_world =
      initial_world\<lparr>timers := timers initial_world @
          [(min (animation_navigationDelay CONFIG) (security_maxRedirectDelay CONFIG),
            Navigate (urls_get CONFIG ''blog'') 7 (textContent initial_world 7))],
        style_opacity := (style_opacity initial_world)(7 := ''0.7''),
        textContent := (textContent initial_world)(7 := loading_label)\<rparr>"
    by (rule handleCardClick_accepted)
  moreover have "min (animation_navigationDelay CONFIG) (security_maxRedirectDelay CONFIG) = 500"
    by (simp add: CONFIG_def)
  moreover have "timers initial_world = []" "textContent initial_world 7 = []"
    by (simp_all add: initial_world_def)
  ultimately show "timers (handleCardClick demo_platform CONFIG 7 ''blog'' initial_world) =
      [(500, Navigate (JStr ''https://blog.qulluq.com/'') 7 [])]"
    by (simp add: CONFIG_urls_examples)
qed

text \<open>
  C1 fails on the code for a section whose name every object inherits as a property.
  \<^verbatim>\<open>CONFIG.urls\<close> has no entry \<open>constructor\<close>, so no URL is configured for that
  section; yet \<^verbatim>\<open>CONFIG.urls['constructor']\<close> reads as the inherited function, which
  is truthy, and the handler passes the test that its own warning names and logs the
  error of an invalid URL instead. Nothing is scheduled.
\<close>

theorem handleCardClick_inherited_name:
  "urls CONFIG ''constructor'' = None
   \<and> console (handleCardClick demo_platform CONFIG 7 ''constructor'' initial_world) =
       [(Err, [Lit ''Invalid or unauthorized URL: '', Val (JObj 0)])]
   \<and> timers (handleCardClick demo_platform CONFIG 7 ''constructor'' initial_world) = []"
  by (simp add: handleCardClick_def urls_get_def Object_prototype_def CONFIG_def isValidUrl_def
        console_error_def initial_world_def)

section \<open>Verification: CONFIG\<close>

lemma CONFIG_object_root: "fst CONFIG_object = JObj 7"
  by (simp add: CONFIG_object_def literal_def Object_freeze_def empty_heap_def)

lemma CONFIG_object_frozen:
  "map (\<lambda>a. map_option frozen (objs (snd CONFIG_object) a)) [1, 2, 3, 4, 5, 6, 7] =
     [Some True, Some True, Some True, Some False, Some False, Some False, Some True]"
  by (simp add: CONFIG_object_def literal_def Object_freeze_def empty_heap_def)

text \<open>
  What is frozen refuses every assignment: the object itself, \<open>urls\<close>, \<open>security\<close> and
  the array of allowed domains.
\<close>

lemma CONFIG_frozen_parts:
  "assign_path (fst CONFIG_object) [k] x (snd CONFIG_object) = Inl TypeError"
  "assign_path (fst CONFIG_object) [''urls'', k] x (snd CONFIG_object) = Inl TypeError"
  "assign_path (fst CONFIG_object) [''security'', k] x (snd CONFIG_object) = Inl TypeError"
  "assign_path (fst CONFIG_object) [''security'', ''allowedDomains'', k] x (snd CONFIG_object)
     = Inl TypeError"
  by (simp_all add: CONFIG_object_def literal_def Object_freeze_def empty_heap_def
        set_prop_def get_prop_def)

text \<open>
  C3 fails on the code. \<open>selectors\<close>, \<open>classes\<close> and \<open>animation\<close> are plain object
  literals that no \<^verbatim>\<open>Object.freeze\<close> is applied to, and freezing the outer object
  does not reach them: the assignment \<^verbatim>\<open>CONFIG.animation.navigationDelay = 0\<close> succeeds
  and the configuration read afterwards differs; so does
  \<^verbatim>\<open>CONFIG.selectors.header = '#x'\<close>.
\<close>

theorem CONFIG_nested_mutable:
  "read_path (snd CONFIG_object) (fst CONFIG_object) [''animation'', ''navigationDelay'']
     = Inr (JNum (Fin 500))
   \<and> (\<exists>h. assign_path (fst CONFIG_object) [''animation'', ''navigationDelay''] (JNum (Fin 0))
              (snd CONFIG_object) = Inr h
          \<and> read_path h (fst CONFIG_object) [''animation'', ''navigationDelay'']
              = Inr (JNum (Fin 0)))
   \<and> read_path (snd CONFIG_object) (fst CONFIG_object) [''selectors'', ''header'']
     = Inr (JStr ''header'')
   \<and> (\<exists>h. assign_path (fst CONFIG_object) [''selectors'', ''header''] (JStr ''#x'')
              (snd CONFIG_object) = Inr h
          \<and> read_path h (fst CONFIG_object) [''selectors'', ''header''] = Inr (JStr ''#x''))"
  by (simp add: CONFIG_object_def literal_def Object_freeze_def empty_heap_def
        set_prop_def get_prop_def)

section \<open>Verification: the click handler of the navigation links\<close>

text \<open>
  C4 fails on the code. The handler prevents the default action in its first
  statement, before it looks at the target, and not inside the fragment branch. Link 1
  of the example document points to \<open>https://example.com/\<close>, which is no fragment:
  a click on it ends with its default action prevented and nothing done in its place,
  so the link is inert.
\<close>

theorem navLinkClick_non_fragment_prevented:
  "getAttribute_href demo_document 1 = Some ''https://example.com/''
   \<and> take 1 ''https://example.com/'' \<noteq> ''#''
   \<and> \<not> defaultPrevented fresh_event
   \<and> navLinkClick demo_platform CONFIG demo_document 1 fresh_event initial_world =
       (None, fresh_event\<lparr>defaultPrevented := True\<rparr>, initial_world)"
  by (simp add: navLinkClick_def demo_document_def fresh_event_def)

text \<open>
  The fragment branch on the example document: link 2 opens the configured URL of
  \<open>blog\<close>, link 3 scrolls to the element with id \<open>about\<close>.
\<close>

lemma navLinkClick_fragment_examples:
  "navLinkClick demo_platform CONFIG demo_document 2 fresh_event initial_world =
      (None, fresh_event\<lparr>defaultPrevented := True\<rparr>,
       initial_world\<lparr>opened := [(JStr ''https://blog.qulluq.com/'', ''_blank'')]\<rparr>)"
  "navLinkClick demo_platform CONFIG demo_document 3 fresh_event initial_world =
      (None, fresh_event\<lparr>defaultPrevented := True\<rparr>,
       initial_world\<lparr>scrolledIntoView := [30]\<rparr>)"
  by (simp_all add: navLinkClick_def demo_document_def CONFIG_def urls_get_def
        Object_prototype_def safeQuerySelector_def initial_world_def)

section \<open>Verification: App.init and App.cleanup\<close>

lemma fold_keeps:
  assumes "\<And>x w. g (f x w) = g w"
  shows "g (fold f xs w) = g w"
  by (induction xs arbitrary: w) (simp_all add: assms)

lemma safeQuerySelectorAll_keeps:
  "observers (snd (safeQuerySelectorAll doc sel w)) = observers w"
  "intersectionObserver (snd (safeQuerySelectorAll doc sel w)) = intersectionObserver w"
  by (simp_all add: safeQuerySelectorAll_def console_error_def split: sum.splits)

lemma addEventListener_keeps:
  "observers (addEventListener t ev h w) = observers w"
  "intersectionObserver (addEventListener t ev h w) = intersectionObserver w"
  by (simp_all add: addEventListener_def)

lemma initializeCard_keeps:
  "observers (initializeCard doc c w) = observers w"
  "intersectionObserver (initializeCard doc c w) = intersectionObserver w"
  by (simp_all add: initializeCard_def addHoverEffects_def addEventListener_keeps
               split: option.splits)

lemma bindEvents_keeps:
  "observers (bindEvents w) = observers w"
  "intersectionObserver (bindEvents w) = intersectionObserver w"
  by (simp_all add: bindEvents_def addEventListener_keeps)

lemma initializeNavigation_keeps:
  "observers (initializeNavigation cfg doc w) = observers w"
  "intersectionObserver (initializeNavigation cfg doc w) = intersectionObserver w"
proof -
  obtain ls w1 where q: "safeQuerySelectorAll doc (selectors_navLinks cfg) w = (ls, w1)"
    by (cases "safeQuerySelectorAll doc (selectors_navLinks cfg) w")
  then have k: "observers w1 = observers w" "intersectionObserver w1 = intersectionObserver w"
    using safeQuerySelectorAll_keeps [of doc "selectors_navLinks cfg" w] by simp_all
  have "observers (fold (\<lambda>link. addEventListener (Element link) ''click'' (NavLinkClick link)) ls w1)
      = observers w1"
    by (rule fold_keeps) (rule addEventListener_keeps)
  with q k show "observers (initializeNavigation cfg doc w) = observers w"
    by (simp add: initializeNavigation_def)
  have "intersectionObserver
      (fold (\<lambda>link. addEventListener (Element link) ''click'' (NavLinkClick link)) ls w1)
      = intersectionObserver w1"
    by (rule fold_keeps) (rule addEventListener_keeps)
  with q k show "intersectionObserver (initializeNavigation cfg doc w) = intersectionObserver w"
    by (simp add: initializeNavigation_def)
qed

lemma initializeCards_keeps:
  "observers (initializeCards cfg doc w) = observers w"
  "intersectionObserver (initializeCards cfg doc w) = intersectionObserver w"
proof -
  obtain cs w1 where q: "safeQuerySelectorAll doc (selectors_navCards cfg) w = (cs, w1)"
    by (cases "safeQuerySelectorAll doc (selectors_navCards cfg) w")
  then have k: "observers w1 = observers w" "intersectionObserver w1 = intersectionObserver w"
    using safeQuerySelectorAll_keeps [of doc "selectors_navCards cfg" w] by simp_all
  have "observers (fold (initializeCard doc) cs w1) = observers w1"
    by (rule fold_keeps) (rule initializeCard_keeps)
  with q k show "observers (initializeCards cfg doc w) = observers w"
    by (simp add: initializeCards_def)
  have "intersectionObserver (fold (initializeCard doc) cs w1) = intersectionObserver w1"
    by (rule fold_keeps) (rule initializeCard_keeps)
  with q k show "intersectionObserver (initializeCards cfg doc w) = intersectionObserver w"
    by (simp add: initializeCards_def)
qed

lemma observe_field: "intersectionObserver (observe ob c w) = intersectionObserver w"
  by (simp add: observe_def)

lemma fold_observe:
  "ob < length (observers w) \<Longrightarrow>
     observers (fold (observe ob) cs w) = (observers w)[ob := observers w ! ob @ cs]"
proof (induction cs arbitrary: w)
  case Nil
  then show ?case by simp
next
  case (Cons c cs)
  let ?w = "observe ob c w"
  from Cons.prems have o: "observers ?w = (observers w)[ob := observers w ! ob @ [c]]"
    by (simp add: observe_def)
  with Cons.prems have "ob < length (observers ?w)"
    by simp
  then have "observers (fold (observe ob) cs ?w) = (observers ?w)[ob := observers ?w ! ob @ cs]"
    by (rule Cons.IH)
  with o Cons.prems show ?case
    by simp
qed

text \<open>
  The observer that \<open>initializeIntersectionObserver\<close> makes ends up with the cards the
  selector finds as its targets, and no field of \<^verbatim>\<open>App\<close> holds it.
\<close>

lemma initializeIntersectionObserver_observers:
  "querySelectorAll doc (selectors_navCards cfg) = Inr cs \<Longrightarrow>
     observers (initializeIntersectionObserver cfg doc w) = observers w @ [cs]"
  by (simp add: initializeIntersectionObserver_def new_IntersectionObserver_def
        safeQuerySelectorAll_def fold_observe)

lemma initializeIntersectionObserver_field:
  "intersectionObserver (initializeIntersectionObserver cfg doc w) = intersectionObserver w"
proof -
  let ?w1 = "w\<lparr>observers := observers w @ [[]]\<rparr>"
  obtain cs w2 where q: "safeQuerySelectorAll doc (selectors_navCards cfg) ?w1 = (cs, w2)"
    by (cases "safeQuerySelectorAll doc (selectors_navCards cfg) ?w1")
  then have k: "intersectionObserver w2 = intersectionObserver w"
    using safeQuerySelectorAll_keeps(2) [of doc "selectors_navCards cfg" ?w1] by simp
  have "intersectionObserver (fold (observe (length (observers w))) cs w2) = intersectionObserver w2"
    by (rule fold_keeps) (rule observe_field)
  with q k show ?thesis
    by (simp add: initializeIntersectionObserver_def new_IntersectionObserver_def)
qed

lemma init_field: "intersectionObserver (init cfg doc w) = intersectionObserver w"
  by (simp add: init_def initializeComponents_def initializeIntersectionObserver_field
        initializeCards_keeps initializeNavigation_keeps bindEvents_keeps)

lemma init_observers:
  "querySelectorAll doc (selectors_navCards cfg) = Inr cs \<Longrightarrow>
     observers (init cfg doc w) = observers w @ [cs]"
  by (simp add: init_def initializeComponents_def initializeIntersectionObserver_observers
        initializeCards_keeps initializeNavigation_keeps bindEvents_keeps)

lemma cleanup_after_init:
  "intersectionObserver w = None \<Longrightarrow> cleanup (init cfg doc w) = init cfg doc w"
  by (simp add: cleanup_def init_field)

text \<open>
  C5 fails on the code. On the example document, started from the initial state,
  \<open>init\<close> makes one observer that observes the four cards; \<open>cleanup\<close> then finds
  \<^verbatim>\<open>this.intersectionObserver\<close> undefined and returns the state as it is: the observer
  still observes the four cards.
\<close>

theorem cleanup_leaves_observer:
  "observers (init CONFIG demo_document initial_world) = [[10, 11, 12, 13]]
   \<and> intersectionObserver (init CONFIG demo_document initial_world) = None
   \<and> observers (cleanup (init CONFIG demo_document initial_world)) = [[10, 11, 12, 13]]"
proof -
  have q: "querySelectorAll demo_document (selectors_navCards CONFIG) = Inr [10, 11, 12, 13]"
    by (simp add: demo_document_def CONFIG_def)
  have s: "intersectionObserver initial_world = None" "observers initial_world = []"
    by (simp_all add: initial_world_def)
  from init_observers [OF q, of initial_world] s
  have a: "observers (init CONFIG demo_document initial_world) = [[10, 11, 12, 13]]"
    by simp
  from init_field [of CONFIG demo_document initial_world] s
  have b: "intersectionObserver (init CONFIG demo_document initial_world) = None"
    by simp
  from cleanup_after_init [OF s(1), of CONFIG demo_document] a
  have c: "observers (cleanup (init CONFIG demo_document initial_world)) = [[10, 11, 12, 13]]"
    by simp
  from a b c show ?thesis
    by blast
qed

section \<open>Verification: Utils.sanitizeInput\<close>

lemma sanitizeInput_non_string: "(\<forall>s. v \<noteq> JStr s) \<Longrightarrow> sanitizeInput v = []"
  by (cases v) (simp_all add: sanitizeInput_def)

lemma sanitizeInput_string: "sanitizeInput (JStr s) = s"
  by (simp add: sanitizeInput_def createElement_def)

text \<open>
  C6 fails on the code for strings with markup: the text read back from the element is
  the text that was stored, character for character, so \<open><\<close> and \<open>>\<close> come back as
  they went in. The encoding the specification describes would have replaced them.
\<close>

theorem sanitizeInput_keeps_markup:
  "sanitizeInput (JStr ''<script>alert(1)</script>'') = ''<script>alert(1)</script>''
   \<and> text_node_encoding ''<script>alert(1)</script>'' = ''&lt;script&gt;alert(1)&lt;/script&gt;''"
  by (simp add: sanitizeInput_string)

section \<open>Verification: Utils.debounce\<close>

lemma run_until_idle: "next_due t s = None \<Longrightarrow> run_until t s = s\<lparr>clock := max (clock s) t\<rparr>"
  by (subst run_until.simps) simp

lemma run_until_fire:
  "next_due t s = Some (i, due, this, args) \<Longrightarrow>
     run_until t s =
       run_until t (later this args
         (s\<lparr>pending := filter (\<lambda>p. fst p \<noteq> i) (pending s), clock := max (clock s) due\<rparr>))"
  by (subst run_until.simps) simp

text \<open>
  A call with nothing pending sets the one timer; nothing runs.
\<close>

lemma first_call:
  assumes "pending s = []" and "clock s \<le> t"
  shows "\<exists>i. pending (invoke_at wait (t, c, a) s) = [(i, t + wait, c, a)]
           \<and> timeout (invoke_at wait (t, c, a) s) = Some i
           \<and> clock (invoke_at wait (t, c, a) s) = t
           \<and> calls (invoke_at wait (t, c, a) s) = calls s"
proof -
  from assms have "run_until t s = s\<lparr>clock := t\<rparr>"
    by (simp add: run_until_idle next_due_def max_def)
  with assms show ?thesis
    by (simp add: executedFunction_def set_timeout_def clear_timeout_def Let_def
          split: option.splits)
qed

text \<open>
  A call while the timer of the call before is pending, and before it is due: that
  timer is cancelled without having run, and the timer of this call is the one pending.
\<close>

lemma next_call:
  assumes "pending s = [(i, t + wait, c, a)]" and "timeout s = Some i" and "clock s = t"
    and "t \<le> t'" and "t' < t + wait"
  shows "\<exists>j. pending (invoke_at wait (t', c', a') s) = [(j, t' + wait, c', a')]
           \<and> timeout (invoke_at wait (t', c', a') s) = Some j
           \<and> clock (invoke_at wait (t', c', a') s) = t'
           \<and> calls (invoke_at wait (t', c', a') s) = calls s"
proof -
  from assms have "run_until t' s = s\<lparr>clock := t'\<rparr>"
    by (simp add: run_until_idle next_due_def max_def)
  with assms show ?thesis
    by (simp add: executedFunction_def set_timeout_def clear_timeout_def Let_def)
qed

lemma burst_calls:
  assumes "pending s = [(i, t + wait, c, a)]" and "timeout s = Some i" and "clock s = t"
    and "burst wait t cs"
  shows "\<exists>j. pending (fold (invoke_at wait) cs s) =
               [(j, fst (last ((t, c, a) # cs)) + wait, snd (last ((t, c, a) # cs)))]
           \<and> timeout (fold (invoke_at wait) cs s) = Some j
           \<and> clock (fold (invoke_at wait) cs s) = fst (last ((t, c, a) # cs))
           \<and> calls (fold (invoke_at wait) cs s) = calls s"
  using assms
proof (induction cs arbitrary: s i t c a)
  case Nil
  then show ?case by simp
next
  case (Cons x cs)
  obtain t' c' a' where x: "x = (t', c', a')"
    by (cases x)
  with Cons.prems have le: "t \<le> t'" "t' < t + wait" and rest: "burst wait t' cs"
    by simp_all
  let ?s = "invoke_at wait (t', c', a') s"
  from next_call [OF Cons.prems(1-3) le, of c' a']
  obtain j where j: "pending ?s = [(j, t' + wait, c', a')]" "timeout ?s = Some j"
    "clock ?s = t'" "calls ?s = calls s"
    by blast
  from Cons.IH [OF j(1-3) rest] j(4) x show ?case
    by simp
qed

lemma armed_quiet:
  assumes "pending s = [(i, t + wait, c, a)]" and "clock s = t" and "t \<le> T" and "T < t + wait"
  shows "run_until T s = s\<lparr>clock := T\<rparr>"
  using assms by (simp add: run_until_idle next_due_def max_def)

lemma armed_fires:
  assumes "pending s = [(i, t + wait, c, a)]" and "clock s = t" and "t + wait \<le> T"
  shows "run_until T s = s\<lparr>pending := [], clock := T, calls := calls s @ [(c, a)]\<rparr>"
proof -
  let ?s = "later c a (s\<lparr>pending := filter (\<lambda>p. fst p \<noteq> i) (pending s),
      clock := max (clock s) (t + wait)\<rparr>)"
  from assms have "next_due T s = Some (i, t + wait, c, a)"
    by (simp add: next_due_def)
  then have "run_until T s = run_until T ?s"
    by (rule run_until_fire)
  moreover from assms have s: "?s = s\<lparr>pending := [], clock := t + wait, calls := calls s @ [(c, a)]\<rparr>"
    by (simp add: later_def clear_timeout_def Let_def max_def split: option.splits)
  moreover from assms have "run_until T (s\<lparr>pending := [], clock := t + wait, calls := calls s @ [(c, a)]\<rparr>)
      = s\<lparr>pending := [], clock := T, calls := calls s @ [(c, a)]\<rparr>"
    by (simp add: run_until_idle next_due_def max_def)
  ultimately show ?thesis
    by simp
qed

text \<open>
  C7. Take a debounced function with no timer pending, and a burst of calls: a first
  call at \<open>t1\<close> and then any number of calls, each less than \<open>wait\<close> after the one
  before. When the last call has been made, \<^verbatim>\<open>func\<close> has not run (so it never runs on
  the leading edge, nor in between), and exactly one timer is pending: the one of the
  last call, due \<open>wait\<close> after it, every earlier one having been cancelled. While less
  than \<open>wait\<close> has passed since the last call, \<^verbatim>\<open>func\<close> still has not run. Once \<open>wait\<close>
  has passed, \<^verbatim>\<open>func\<close> has run exactly once, with the \<^verbatim>\<open>this\<close> and the arguments of
  the last call, and no timer is left.
\<close>

theorem debounce_trailing_edge:
  assumes "pending s = []" and "clock s \<le> t1" and "burst wait t1 cs"
    and "last ((t1, c1, a1) # cs) = (tn, cn, an)"
  shows "calls (fold (invoke_at wait) ((t1, c1, a1) # cs) s) = calls s
    \<and> (\<exists>j. pending (fold (invoke_at wait) ((t1, c1, a1) # cs) s) = [(j, tn + wait, cn, an)])
    \<and> (\<forall>T. tn \<le> T \<and> T < tn + wait \<longrightarrow>
          calls (run_until T (fold (invoke_at wait) ((t1, c1, a1) # cs) s)) = calls s)
    \<and> (\<forall>T. tn + wait \<le> T \<longrightarrow>
          calls (run_until T (fold (invoke_at wait) ((t1, c1, a1) # cs) s)) = calls s @ [(cn, an)]
          \<and> pending (run_until T (fold (invoke_at wait) ((t1, c1, a1) # cs) s)) = [])"
proof -
  let ?s1 = "invoke_at wait (t1, c1, a1) s"
  let ?sn = "fold (invoke_at wait) ((t1, c1, a1) # cs) s"
  from first_call [OF assms(1,2), of wait c1 a1]
  obtain i where i: "pending ?s1 = [(i, t1 + wait, c1, a1)]" "timeout ?s1 = Some i"
    "clock ?s1 = t1" "calls ?s1 = calls s"
    by blast
  from burst_calls [OF i(1-3) assms(3)] assms(4) i(4)
  obtain j where j: "pending ?sn = [(j, tn + wait, cn, an)]" "clock ?sn = tn" "calls ?sn = calls s"
    by auto
  have quiet: "calls (run_until T ?sn) = calls s" if "tn \<le> T \<and> T < tn + wait" for T
    using armed_quiet [OF j(1,2), of T] that j(3) by simp
  have fired: "calls (run_until T ?sn) = calls s @ [(cn, an)] \<and> pending (run_until T ?sn) = []"
    if "tn + wait \<le> T" for T
    using armed_fires [OF j(1,2) that] j(3) by simp
  from j quiet fired show ?thesis
    by blast
qed

text \<open>
  The example of the specification: \<open>wait\<close> is 16; ten calls within 5 ms, numbered by
  their argument, then 20 ms of quiet: one call of \<^verbatim>\<open>func\<close>, with the argument of the
  tenth. Before that, at the time of the last call, none.
\<close>

theorem debounce_trailing_edge_witness:
  "calls (run_until 25 (fold (invoke_at 16)
      [(0, ''app'', 1), (0, ''app'', 2), (1, ''app'', 3), (1, ''app'', 4), (2, ''app'', 5),
       (3, ''app'', 6), (3, ''app'', 7), (4, ''app'', 8), (5, ''app'', 9), (5, ''app'', 10 :: nat)]
      debounce)) = [(''app'', 10)]
   \<and> calls (run_until 20 (fold (invoke_at 16)
      [(0, ''app'', 1), (0, ''app'', 2), (1, ''app'', 3), (1, ''app'', 4), (2, ''app'', 5),
       (3, ''app'', 6), (3, ''app'', 7), (4, ''app'', 8), (5, ''app'', 9), (5, ''app'', 10 :: nat)]
      debounce)) = []"
proof -
  let ?cs = "[(0, ''app'', 2), (1, ''app'', 3), (1, ''app'', 4), (2, ''app'', 5),
       (3, ''app'', 6), (3, ''app'', 7), (4, ''app'', 8), (5, ''app'', 9), (5, ''app'', 10 :: nat)]"
  have p: "pending (debounce :: (string, nat) debounced) = []"
    and k: "clock (debounce :: (string, nat) debounced) \<le> 0"
    and c: "calls (debounce :: (string, nat) debounced) = []"
    by (simp_all add: debounce_def)
  have b: "burst 16 0 ?cs"
    by simp
  have l: "last ((0, ''app'', 1) # ?cs) = (5, ''app'', 10)"
    by simp
  from debounce_trailing_edge [OF p k b l]
  have "\<forall>T. 5 + 16 \<le> T \<longrightarrow>
      calls (run_until T (fold (invoke_at 16) ((0, ''app'', 1) # ?cs) debounce))
        = calls (debounce :: (string, nat) debounced) @ [(''app'', 10)]"
    and "\<forall>T. 5 \<le> T \<and> T < 5 + 16 \<longrightarrow>
      calls (run_until T (fold (invoke_at 16) ((0, ''app'', 1) # ?cs) debounce))
        = calls (debounce :: (string, nat) debounced)"
    by blast+
  then have "calls (run_until 25 (fold (invoke_at 16) ((0, ''app'', 1) # ?cs) debounce))
        = calls (debounce :: (string, nat) debounced) @ [(''app'', 10)]"
    and "calls (run_until 20 (fold (invoke_at 16) ((0, ''app'', 1) # ?cs) debounce))
        = calls (debounce :: (string, nat) debounced)"
    by simp_all
  with c show ?thesis
    by simp
qed

section \<open>Verification: App.updateHeaderVisibility\<close>

lemma updateHeaderVisibility_present:
  assumes "querySelector doc (selectors_header cfg) = Inr (Some header)"
  shows "updateHeaderVisibility pf cfg doc w =
     (None,
      w\<lparr>style_transform := (style_transform w)
            (header := if current_offset doc > stored_offset w \<and> current_offset doc > 100
                       then ''translateY(-100%)'' else ''translateY(0)''),
        lastScrollTop := Some (max 0 (current_offset doc))\<rparr>)"
  using assms
  by (auto simp: updateHeaderVisibility_def safeQuerySelector_def stored_offset_def Let_def max_def
           split: option.splits)

lemma updateHeaderVisibility_absent:
  assumes "querySelector doc (selectors_header cfg) = Inr None"
  shows "updateHeaderVisibility pf cfg doc w = (None, w\<lparr>lastScrollTop := Some (stored_offset w)\<rparr>)"
  using assms
  by (auto simp: updateHeaderVisibility_def safeQuerySelector_def stored_offset_def Let_def
           split: option.splits)

text \<open>
  C8 as stated fails when the document has no header: the update returns before the
  stored offset is written. Stored offset 50, current offset 150, no header: the
  stored offset is still 50, not 150.
\<close>

theorem updateHeaderVisibility_counterexample:
  "querySelector (demo_document\<lparr>querySelector := (\<lambda>s. Inr None), pageYOffset := 150\<rparr>)
       (selectors_header CONFIG) = Inr None
   \<and> lastScrollTop (snd (updateHeaderVisibility demo_platform CONFIG
         (demo_document\<lparr>querySelector := (\<lambda>s. Inr None), pageYOffset := 150\<rparr>)
         (initial_world\<lparr>lastScrollTop := Some 50\<rparr>))) = Some 50
   \<and> max 0 (current_offset (demo_document\<lparr>querySelector := (\<lambda>s. Inr None), pageYOffset := 150\<rparr>))
       = 150"
  by (simp add: updateHeaderVisibility_absent stored_offset_def current_offset_def)

text \<open>
  C8, amended. After every execution of the update that finds the header element: the
  header is translated out of view if and only if the current offset exceeds the
  stored one and exceeds 100, and is translated to its resting position otherwise; the
  stored offset is then max(0, current offset), which is not negative. When there is
  no header element, no style changes and the stored offset keeps its value.
\<close>

theorem updateHeaderVisibility_spec:
  "(querySelector doc (selectors_header cfg) = Inr (Some header) \<longrightarrow>
      fst (updateHeaderVisibility pf cfg doc w) = None
      \<and> (style_transform (snd (updateHeaderVisibility pf cfg doc w)) header = ''translateY(-100%)''
           \<longleftrightarrow> current_offset doc > stored_offset w \<and> current_offset doc > 100)
      \<and> (\<not> (current_offset doc > stored_offset w \<and> current_offset doc > 100) \<longrightarrow>
           style_transform (snd (updateHeaderVisibility pf cfg doc w)) header = ''translateY(0)'')
      \<and> lastScrollTop (snd (updateHeaderVisibility pf cfg doc w)) = Some (max 0 (current_offset doc))
      \<and> stored_offset (snd (updateHeaderVisibility pf cfg doc w)) \<ge> 0)
   \<and> (querySelector doc (selectors_header cfg) = Inr None \<longrightarrow>
      fst (updateHeaderVisibility pf cfg doc w) = None
      \<and> style_transform (snd (updateHeaderVisibility pf cfg doc w)) = style_transform w
      \<and> stored_offset (snd (updateHeaderVisibility pf cfg doc w)) = stored_offset w)"
proof (intro conjI impI)
  assume h: "querySelector doc (selectors_header cfg) = Inr (Some header)"
  note r = updateHeaderVisibility_present [OF h, of pf w]
  show "fst (updateHeaderVisibility pf cfg doc w) = None"
    by (simp add: r)
  show "style_transform (snd (updateHeaderVisibility pf cfg doc w)) header = ''translateY(-100%)''
      \<longleftrightarrow> current_offset doc > stored_offset w \<and> current_offset doc > 100"
    by (simp add: r)
  show "lastScrollTop (snd (updateHeaderVisibility pf cfg doc w)) = Some (max 0 (current_offset doc))"
    by (simp add: r)
  show "stored_offset (snd (updateHeaderVisibility pf cfg doc w)) \<ge> 0"
    by (simp add: r stored_offset_def)
  assume "\<not> (current_offset doc > stored_offset w \<and> current_offset doc > 100)"
  then show "style_transform (snd (updateHeaderVisibility pf cfg doc w)) header = ''translateY(0)''"
    by (simp add: r)
next
  assume h: "querySelector doc (selectors_header cfg) = Inr None"
  note r = updateHeaderVisibility_absent [OF h, of pf w]
  show "fst (updateHeaderVisibility pf cfg doc w) = None"
    by (simp add: r)
  show "style_transform (snd (updateHeaderVisibility pf cfg doc w)) = style_transform w"
    by (simp add: r)
  show "stored_offset (snd (updateHeaderVisibility pf cfg doc w)) = stored_offset w"
    by (simp add: r stored_offset_def)
qed

text \<open>
  The example of the specification: from no stored offset, a scroll to 150 hides the
  header (20) and stores 150; a scroll back to 50 shows it again and stores 50; a
  negative offset stores 0.
\<close>

theorem updateHeaderVisibility_spec_witness:
  "style_transform (snd (updateHeaderVisibility demo_platform CONFIG
       (demo_document\<lparr>pageYOffset := 150\<rparr>) initial_world)) 20 = ''translateY(-100%)''
   \<and> lastScrollTop (snd (updateHeaderVisibility demo_platform CONFIG
       (demo_document\<lparr>pageYOffset := 150\<rparr>) initial_world)) = Some 150
   \<and> style_transform (snd (updateHeaderVisibility demo_platform CONFIG
       (demo_document\<lparr>pageYOffset := 50\<rparr>) (initial_world\<lparr>lastScrollTop := Some 150\<rparr>))) 20
       = ''translateY(0)''
   \<and> lastScrollTop (snd (updateHeaderVisibility demo_platform CONFIG
       (demo_document\<lparr>pageYOffset := - 30\<rparr>) (initial_world\<lparr>lastScrollTop := Some 50\<rparr>)))
       = Some 0
   \<and> stored_offset (snd (updateHeaderVisibility demo_platform CONFIG
       (demo_document\<lparr>querySelector := (\<lambda>s. Inr None)\<rparr>) (initial_world\<lparr>lastScrollTop := Some 50\<rparr>)))
       = 50"
proof -
  let ?d150 = "demo_document\<lparr>pageYOffset := 150\<rparr>"
  let ?d50 = "demo_document\<lparr>pageYOffset := 50\<rparr>"
  let ?dneg = "demo_document\<lparr>pageYOffset := - 30\<rparr>"
  let ?dnone = "demo_document\<lparr>querySelector := (\<lambda>s. Inr None)\<rparr>"
  let ?w150 = "initial_world\<lparr>lastScrollTop := Some 150\<rparr>"
  let ?w50 = "initial_world\<lparr>lastScrollTop := Some 50\<rparr>"
  have h: "querySelector ?d150 (selectors_header CONFIG) = Inr (Some 20)"
    "querySelector ?d50 (selectors_header CONFIG) = Inr (Some 20)"
    "querySelector ?dneg (selectors_header CONFIG) = Inr (Some 20)"
    "querySelector ?dnone (selectors_header CONFIG) = Inr None"
    by (simp_all add: demo_document_def CONFIG_def)
  have o: "current_offset ?d150 = 150" "current_offset ?d50 = 50" "current_offset ?dneg = - 30"
    "stored_offset initial_world = 0" "stored_offset ?w150 = 150" "stored_offset ?w50 = 50"
    by (simp_all add: current_offset_def stored_offset_def initial_world_def)
  from updateHeaderVisibility_spec [of ?d150 CONFIG 20 demo_platform initial_world] h(1)
  have a: "style_transform (snd (updateHeaderVisibility demo_platform CONFIG ?d150 initial_world)) 20
        = ''translateY(-100%)''"
    "lastScrollTop (snd (updateHeaderVisibility demo_platform CONFIG ?d150 initial_world)) = Some 150"
    by (simp_all add: o)
  from updateHeaderVisibility_spec [of ?d50 CONFIG 20 demo_platform ?w150] h(2)
  have b: "style_transform (snd (updateHeaderVisibility demo_platform CONFIG ?d50 ?w150)) 20
        = ''translateY(0)''"
    by (simp add: o)
  from updateHeaderVisibility_spec [of ?dneg CONFIG 20 demo_platform ?w50] h(3)
  have c: "lastScrollTop (snd (updateHeaderVisibility demo_platform CONFIG ?dneg ?w50)) = Some 0"
    by (simp add: o)
  from updateHeaderVisibility_spec [of ?dnone CONFIG 20 demo_platform ?w50] h(4)
  have d: "stored_offset (snd (updateHeaderVisibility demo_platform CONFIG ?dnone ?w50)) = 50"
    by (simp add: o)
  from a b c d show ?thesis
    by simp
qed

section \<open>Verification: App.initializeCards\<close>











section \<open>Verification: App.updateScrollIndicator\<close>

lemma round_to_double_not_NaN: "round_to_double x \<noteq> NaN"
  by (simp add: round_to_double_def Let_def)

lemma scrollPercent_positive:
  assumes "scrollHeight doc - clientHeight doc > 0"
  shows "scrollPercent doc =
     (case round_to_double (scrollTop doc / of_int (scrollHeight doc - clientHeight doc)) of
        Fin q \<Rightarrow> round_to_double (q * 100)
      | Infinity \<Rightarrow> Infinity
      | NegInfinity \<Rightarrow> NegInfinity
      | NaN \<Rightarrow> NaN)"
  using assms by (simp add: scrollPercent_def Let_def split: number.splits)

lemma rounding_examples:
  "round_to_double (29 / 100) = Fin (5224175567749775 / 18014398509481984)"
  "round_to_double (5224175567749775 / 18014398509481984 * 100)
     = Fin (8162774324609023 / 281474976710656)"
  "round_to_double (130604389193744375 / 4503599627370496)
     = Fin (8162774324609023 / 281474976710656)"
  "round_to_double (1 / 2) = Fin (1 / 2)"
  "round_to_double 50 = Fin 50"
  by code_simp+

text \<open>
  C9 as stated fails: the code computes in doubles. With scrollTop 29, scrollHeight 600
  and clientHeight 500 the quotient 29/100 is no double; it is rounded, and so is the
  product, which comes out as 8162774324609023 / 2^48 (printed 28.999999999999996),
  not as (29 / 100) * 100 = 29.
\<close>

theorem scrollPercent_counterexample:
  "scrollHeight (demo_document\<lparr>scrollTop := 29, scrollHeight := 600\<rparr>)
     - clientHeight (demo_document\<lparr>scrollTop := 29, scrollHeight := 600\<rparr>) > 0
   \<and> scrollTop (demo_document\<lparr>scrollTop := 29, scrollHeight := 600\<rparr>)
       / of_int (scrollHeight (demo_document\<lparr>scrollTop := 29, scrollHeight := 600\<rparr>)
                 - clientHeight (demo_document\<lparr>scrollTop := 29, scrollHeight := 600\<rparr>)) * 100 = 29
   \<and> scrollPercent (demo_document\<lparr>scrollTop := 29, scrollHeight := 600\<rparr>)
       = Fin (8162774324609023 / 281474976710656)
   \<and> scrollPercent (demo_document\<lparr>scrollTop := 29, scrollHeight := 600\<rparr>) \<noteq> Fin 29"
proof -
  let ?d = "demo_document\<lparr>scrollTop := 29, scrollHeight := 600\<rparr>"
  have f: "scrollHeight ?d = 600" "clientHeight ?d = 500" "scrollTop ?d = 29"
    by (simp_all add: demo_document_def)
  have "scrollPercent ?d = Fin (8162774324609023 / 281474976710656)"
    using scrollPercent_positive [of ?d]
    by (simp add: f rounding_examples)
  then show ?thesis
    by (simp add: f)
qed

text \<open>
  C9, amended. For every scrollTop, scrollHeight and clientHeight: when scrollHeight -
  clientHeight is positive, the scroll progress is (scrollTop / (scrollHeight -
  clientHeight)) * 100 as double arithmetic computes it, the quotient rounded to the
  nearest double and then the product; it is the exact value whenever the exact
  quotient and the exact product are doubles. When scrollHeight - clientHeight is 0 or
  negative, it is 0. It is never NaN; no division by zero takes place.
\<close>

theorem scrollPercent_spec:
  "(scrollHeight doc - clientHeight doc > 0 \<longrightarrow>
      scrollPercent doc =
        (case round_to_double (scrollTop doc / of_int (scrollHeight doc - clientHeight doc)) of
           Fin q \<Rightarrow> round_to_double (q * 100)
         | Infinity \<Rightarrow> Infinity
         | NegInfinity \<Rightarrow> NegInfinity
         | NaN \<Rightarrow> NaN))
   \<and> (scrollHeight doc - clientHeight doc > 0
        \<and> round_to_double (scrollTop doc / of_int (scrollHeight doc - clientHeight doc))
            = Fin (scrollTop doc / of_int (scrollHeight doc - clientHeight doc))
        \<and> round_to_double (scrollTop doc / of_int (scrollHeight doc - clientHeight doc) * 100)
            = Fin (scrollTop doc / of_int (scrollHeight doc - clientHeight doc) * 100) \<longrightarrow>
      scrollPercent doc
        = Fin (scrollTop doc / of_int (scrollHeight doc - clientHeight doc) * 100))
   \<and> (scrollHeight doc - clientHeight doc \<le> 0 \<longrightarrow> scrollPercent doc = Fin 0)
   \<and> scrollPercent doc \<noteq> NaN"
proof (intro conjI impI)
  assume "scrollHeight doc - clientHeight doc > 0"
  then show "scrollPercent doc =
      (case round_to_double (scrollTop doc / of_int (scrollHeight doc - clientHeight doc)) of
         Fin q \<Rightarrow> round_to_double (q * 100)
       | Infinity \<Rightarrow> Infinity
       | NegInfinity \<Rightarrow> NegInfinity
       | NaN \<Rightarrow> NaN)"
    by (rule scrollPercent_positive)
next
  assume "scrollHeight doc - clientHeight doc > 0
      \<and> round_to_double (scrollTop doc / of_int (scrollHeight doc - clientHeight doc))
          = Fin (scrollTop doc / of_int (scrollHeight doc - clientHeight doc))
      \<and> round_to_double (scrollTop doc / of_int (scrollHeight doc - clientHeight doc) * 100)
          = Fin (scrollTop doc / of_int (scrollHeight doc - clientHeight doc) * 100)"
  then show "scrollPercent doc
      = Fin (scrollTop doc / of_int (scrollHeight doc - clientHeight doc) * 100)"
    by (simp add: scrollPercent_positive)
next
  assume "scrollHeight doc - clientHeight doc \<le> 0"
  then show "scrollPercent doc = Fin 0"
    by (simp add: scrollPercent_def Let_def)
next
  show "scrollPercent doc \<noteq> NaN"
  proof (cases "scrollHeight doc - clientHeight doc > 0")
    case True
    then show ?thesis
      by (simp add: scrollPercent_positive round_to_double_not_NaN split: number.splits)
  next
    case False
    then show ?thesis
      by (simp add: scrollPercent_def Let_def)
  qed
qed

text \<open>
  The examples of the specification: scrolled to 250 of a page 1000 high in a window
  500 high, the progress is 50; at the top it is 0; with a page no higher than the
  window it is 0.
\<close>

theorem scrollPercent_spec_witness:
  "scrollPercent demo_document = Fin 50
   \<and> scrollPercent (demo_document\<lparr>scrollTop := 0\<rparr>) = Fin 0
   \<and> scrollPercent (demo_document\<lparr>scrollHeight := 500\<rparr>) = Fin 0
   \<and> scrollPercent (demo_document\<lparr>scrollTop := 29, scrollHeight := 600\<rparr>)
       = Fin (8162774324609023 / 281474976710656)"
proof -
  let ?d0 = "demo_document\<lparr>scrollTop := 0\<rparr>"
  let ?d1 = "demo_document\<lparr>scrollHeight := 500\<rparr>"
  let ?d2 = "demo_document\<lparr>scrollTop := 29, scrollHeight := 600\<rparr>"
  have f: "scrollHeight demo_document = 1000" "clientHeight demo_document = 500"
    "scrollTop demo_document = 250"
    and f0: "scrollHeight ?d0 = 1000" "clientHeight ?d0 = 500" "scrollTop ?d0 = 0"
    and f1: "scrollHeight ?d1 = 500" "clientHeight ?d1 = 500"
    and f2: "scrollHeight ?d2 = 600" "clientHeight ?d2 = 500" "scrollTop ?d2 = 29"
    by (simp_all add: demo_document_def)
  have z: "round_to_double 0 = Fin 0"
    by (simp add: round_to_double_def)
  have "scrollHeight demo_document - clientHeight demo_document > 0
      \<and> round_to_double (scrollTop demo_document
            / of_int (scrollHeight demo_document - clientHeight demo_document))
          = Fin (scrollTop demo_document
            / of_int (scrollHeight demo_document - clientHeight demo_document))
      \<and> round_to_double (scrollTop demo_document
            / of_int (scrollHeight demo_document - clientHeight demo_document) * 100)
          = Fin (scrollTop demo_document
            / of_int (scrollHeight demo_document - clientHeight demo_document) * 100)"
    by (simp add: f rounding_examples)
  with scrollPercent_spec [of demo_document]
  have "scrollPercent demo_document = Fin (scrollTop demo_document
      / of_int (scrollHeight demo_document - clientHeight demo_document) * 100)"
    by blast
  then have a: "scrollPercent demo_document = Fin 50"
    by (simp add: f)
  have "scrollHeight ?d0 - clientHeight ?d0 > 0"
    by (simp add: f0)
  with scrollPercent_spec [of ?d0]
  have "scrollPercent ?d0 =
      (case round_to_double (scrollTop ?d0 / of_int (scrollHeight ?d0 - clientHeight ?d0)) of
         Fin q \<Rightarrow> round_to_double (q * 100)
       | Infinity \<Rightarrow> Infinity
       | NegInfinity \<Rightarrow> NegInfinity
       | NaN \<Rightarrow> NaN)"
    by blast
  then have b: "scrollPercent ?d0 = Fin 0"
    by (simp add: f0 z)
  have "scrollHeight ?d1 - clientHeight ?d1 \<le> 0"
    by (simp add: f1)
  with scrollPercent_spec [of ?d1]
  have c: "scrollPercent ?d1 = Fin 0"
    by blast
  have "scrollHeight ?d2 - clientHeight ?d2 > 0"
    by (simp add: f2)
  with scrollPercent_spec [of ?d2]
  have "scrollPercent ?d2 =
      (case round_to_double (scrollTop ?d2 / of_int (scrollHeight ?d2 - clientHeight ?d2)) of
         Fin q \<Rightarrow> round_to_double (q * 100)
       | Infinity \<Rightarrow> Infinity
       | NegInfinity \<Rightarrow> NegInfinity
       | NaN \<Rightarrow> NaN)"
    by blast
  then have d: "scrollPercent ?d2 = Fin (8162774324609023 / 281474976710656)"
    by (simp add: f2 rounding_examples)
  from a b c d show ?thesis
    by blast
qed

text \<open>When the indicator is found, its width becomes that percentage.\<close>

lemma updateScrollIndicator_width:
  "querySelector doc (selectors_scrollIndicator cfg) = Inr (Some ind) \<Longrightarrow>
     updateScrollIndicator pf cfg doc w =
       (None, w\<lparr>style_width := (style_width w)(ind := Percent (scrollPercent doc))\<rparr>)"
  by (simp add: updateScrollIndicator_def safeQuerySelector_def)

lemma updateScrollIndicator_absent:
  "querySelector doc (selectors_scrollIndicator cfg) = Inr None \<Longrightarrow>
     updateScrollIndicator pf cfg doc w = (None, w)"
  by (simp add: updateScrollIndicator_def safeQuerySelector_def)

end
